theory Spec2Isabelle
  imports Main
begin

section \<open>AST nodes, host values, environments\<close>

text \<open>
  The part of the AST the meta-function bridge and the base evaluators look at.
  A parameter is an \<open>Identifier\<close>, a \<open>RestElement\<close> (whose \<open>argument\<close> is typed
  \<open>Identifier\<close>, so the node carries that identifier's name) or a node of any other type,
  kept with its \<open>type\<close> tag. A function node has \<open>params\<close> and \<open>body\<close>.
\<close>

datatype node =
    Identifier (name: string)
  | RestElement (argument: string)
  | Function function_node
  | OtherNode (ntype: string)
and function_node =
    FunctionNode (ftype: string) (params: "node list") (body: node)

fun node_type :: "node \<Rightarrow> string" where
  "node_type (Identifier x) = ''Identifier''"
| "node_type (RestElement x) = ''RestElement''"
| "node_type (Function f) = ftype f"
| "node_type (OtherNode t) = t"

text \<open>
  An exception packet (\<open>MetaesException\<close>): \<open>type\<close>, \<open>value\<close>, \<open>location\<close>, \<open>message\<close>.
  An absent \<open>value\<close> reads as \<open>undefined\<close>.
\<close>

datatype 'v packet_of =
  Packet (ptype: string) (pvalue: 'v) (plocation: "node option") (pmessage: "string option")

text \<open>
  Host values. Numbers are the integer-valued ones; objects are property lists in
  insertion order; a packet travelling through a continuation is a host object too.
\<close>

datatype val =
    Undefined
  | Null
  | Bool bool
  | Num int
  | Str string
  | Arr "val list"
  | Obj "(string \<times> val) list"
  | Exc "val packet_of"

type_synonym packet = "val packet_of"
type_synonym props = "(string \<times> val) list"

text \<open>\<open>o[k]\<close> and \<open>o[k] = v\<close> on a plain object.\<close>

fun get_prop :: "props \<Rightarrow> string \<Rightarrow> val" where
  "get_prop [] k = Undefined"
| "get_prop ((k', v) # ps) k = (if k' = k then v else get_prop ps k)"

fun has_prop :: "props \<Rightarrow> string \<Rightarrow> bool" where
  "has_prop [] k = False"
| "has_prop ((k', v) # ps) k = (k' = k \<or> has_prop ps k)"

fun set_prop :: "props \<Rightarrow> string \<Rightarrow> val \<Rightarrow> props" where
  "set_prop [] k v = [(k, v)]"
| "set_prop ((k', v') # ps) k v = (if k' = k then (k, v) # ps else (k', v') # set_prop ps k v)"

text \<open>
  \<open>o[k] = v\<close> in the module's strict code, on an object made by an object literal: the
  write makes or updates an own data property, except for the key \<open>__proto__\<close>, where the
  accessor inherited from \<open>Object.prototype\<close> takes the write and no own property is made.
  (That accessor changes the object's prototype when \<open>v\<close> is an object or \<open>null\<close>; the
  own properties kept here do not show it.)
\<close>

definition assign_prop :: "props \<Rightarrow> string \<Rightarrow> val \<Rightarrow> props" where
  "assign_prop ps k v = (if k = ''__proto__'' then ps else set_prop ps k v)"

text \<open>\<open>args[i]\<close> is \<open>undefined\<close> past the end; \<open>args.slice(i)\<close> is the rest, possibly empty.\<close>

definition index :: "val list \<Rightarrow> nat \<Rightarrow> val" where
  "index args i = (if i < length args then args ! i else Undefined)"

definition slice :: "val list \<Rightarrow> nat \<Rightarrow> val list" where
  "slice args i = drop i args"

text \<open>Host truthiness, as \<open>if (error)\<close> tests it.\<close>

fun truthy :: "val \<Rightarrow> bool" where
  "truthy Undefined = False"
| "truthy Null = False"
| "truthy (Bool b) = b"
| "truthy (Num n) = (n \<noteq> 0)"
| "truthy (Str s) = (s \<noteq> [])"
| "truthy (Arr xs) = True"
| "truthy (Obj ps) = True"
| "truthy (Exc p) = True"

text \<open>A scope frame \<open>{values, prev}\<close>.\<close>

datatype environment =
  Environment (env_values: props) (prev: "environment option")

section \<open>Host computations\<close>

text \<open>
  A host call either returns or throws a value; it runs on a state that is passed along.
  Continuations, interceptors and \<open>onError\<close> hooks are such calls.
\<close>

datatype 'a completion = Normal 'a | Throw val

type_synonym ('a, 's) host = "'s \<Rightarrow> 'a completion \<times> 's"
type_synonym 's callback = "val \<Rightarrow> (unit, 's) host"

definition ret :: "'a \<Rightarrow> ('a, 's) host" where
  "ret a = (\<lambda>s. (Normal a, s))"

definition throw :: "val \<Rightarrow> ('a, 's) host" where
  "throw x = (\<lambda>s. (Throw x, s))"

definition andThen :: "('a, 's) host \<Rightarrow> ('a \<Rightarrow> ('b, 's) host) \<Rightarrow> ('b, 's) host" where
  "andThen m f = (\<lambda>s. case m s of (Normal a, s') \<Rightarrow> f a s' | (Throw x, s') \<Rightarrow> (Throw x, s'))"

definition tryCatch :: "('a, 's) host \<Rightarrow> (val \<Rightarrow> ('a, 's) host) \<Rightarrow> ('a, 's) host" where
  "tryCatch m h = (\<lambda>s. case m s of (Normal a, s') \<Rightarrow> (Normal a, s') | (Throw x, s') \<Rightarrow> h x s')"

text \<open>A call that works on the second component of the state, a local kept beside it.\<close>

definition lift :: "('a, 's) host \<Rightarrow> ('a, 'l \<times> 's) host" where
  "lift m = (\<lambda>(l, s). case m s of (r, s') \<Rightarrow> (r, (l, s')))"

section \<open>Configuration and the interceptor\<close>

datatype phase = Enter | Exit

text \<open>
  What the interceptor is called with. On \<open>enter\<close> of a meta-function the value is the
  meta-function itself, kept here as its node and closure.
\<close>

datatype ivalue = OfMetaFunction function_node environment | OfValue val

record evaluation =
  ev_scriptId :: "string option"
  ev_e :: node
  ev_value :: ivalue
  ev_env :: environment
  ev_phase :: phase

record 's config =
  interceptor :: "(evaluation \<Rightarrow> (unit, 's) host) option"
  scriptId :: "string option"
  onError :: "'s callback option"

record 's metaFunction =
  mf_e :: function_node
  mf_closure :: environment
  mf_config :: "'s config option"

text \<open>
  Modelled from the spec: \<open>callInterceptor\<close> (imported from \<open>./environment\<close>, which is
  not among the sources). It calls the configured interceptor with the evaluation record
  \<open>{scriptId, e, env, value, tag: {phase}}\<close>.
\<close>

definition callInterceptor ::
  "node \<Rightarrow> 's config \<Rightarrow> ivalue \<Rightarrow> environment \<Rightarrow> phase \<Rightarrow> (unit, 's) host" where
  "callInterceptor n cfg v env ph =
     (case interceptor cfg of
        None \<Rightarrow> ret ()
      | Some f \<Rightarrow> f \<lparr>ev_scriptId = scriptId cfg, ev_e = n, ev_value = v, ev_env = env, ev_phase = ph\<rparr>)"

text \<open>
  Modelled from the spec: \<open>NotImplementedException(message, location)\<close> (imported from
  \<open>./exceptions\<close>, which is not among the sources): a packet tagged as not implemented,
  with the message and the optional location, and no \<open>value\<close>.
\<close>

definition NotImplementedException :: "string \<Rightarrow> node option \<Rightarrow> val" where
  "NotImplementedException message loc = Exc (Packet ''NotImplemented'' Undefined loc (Some message))"

section \<open>The evaluator of a node, as the bridge sees it\<close>

text \<open>
  \<open>evaluate(node, env, config, c, cerr)\<close> (imported from \<open>./applyEval\<close>, not among the
  sources) is a parameter of the model. To its caller it is a host computation that calls
  the two continuations it was given, any number of times and in any order, sees whether
  each call returned or threw, and finally returns or throws itself.
\<close>

datatype behaviour =
    Return
  | Raise val
  | CallC val "unit completion \<Rightarrow> behaviour"
  | CallCerr packet "unit completion \<Rightarrow> behaviour"

primrec run ::
  "behaviour \<Rightarrow> (val \<Rightarrow> (unit, 't) host) \<Rightarrow> (packet \<Rightarrow> (unit, 't) host) \<Rightarrow> (unit, 't) host" where
  "run Return = (\<lambda>k ke t. (Normal (), t))"
| "run (Raise x) = (\<lambda>k ke t. (Throw x, t))"
| "run (CallC v f) = (\<lambda>k ke t. case k v t of (r, t') \<Rightarrow> run (f r) k ke t')"
| "run (CallCerr p f) = (\<lambda>k ke t. case ke p t of (r, t') \<Rightarrow> run (f r) k ke t')"

text \<open>A continuation's throw that the evaluator does not catch leaves the evaluator.\<close>

definition uncaught :: "behaviour \<Rightarrow> unit completion \<Rightarrow> behaviour" where
  "uncaught rest r = (case r of Normal u \<Rightarrow> rest | Throw x \<Rightarrow> Raise x)"

section \<open>The meta-function bridge\<close>

text \<open>\<open>config && config.onError && config.onError(error)\<close>.\<close>

definition notifyOnError :: "'s config option \<Rightarrow> val \<Rightarrow> (unit, 's) host" where
  "notifyOnError cfg error =
     (case cfg of
        None \<Rightarrow> ret ()
      | Some cf \<Rightarrow> (case onError cf of None \<Rightarrow> ret () | Some h \<Rightarrow> h error))"

text \<open>
  The loop \<open>for (let param of e.params)\<close> of \<open>evaluateMetaFunction\<close>, with its counter
  \<open>i\<close> and the frame's \<open>values\<close>, the object literal \<open>{ this: thisObject, arguments: args }\<close>
  that \<open>env.values[name] = ...\<close> writes to. The \<open>break\<close> of each case leaves the \<open>switch\<close>,
  so the loop goes on to the next parameter after either case.
\<close>

fun bindParams :: "'s config option \<Rightarrow> node list \<Rightarrow> val list \<Rightarrow> nat \<Rightarrow> props \<Rightarrow> (props, 's) host" where
  "bindParams cfg [] args i vs = ret vs"
| "bindParams cfg (Identifier x # ps) args i vs =
     bindParams cfg ps args (Suc i) (assign_prop vs x (index args i))"
| "bindParams cfg (RestElement x # ps) args i vs =
     bindParams cfg ps args i (assign_prop vs x (Arr (slice args i)))"
| "bindParams cfg (param # ps) args i vs =
     (let error = NotImplementedException
                    (''Not supported type ('' @ node_type param @ '') of function param.'') (Some param)
      in andThen (notifyOnError cfg error) (\<lambda>_. throw error))"

text \<open>The local \<open>_calledAfterInterceptor\<close> is kept beside the state while the body runs.\<close>

definition getLocal :: "('l, 'l \<times> 's) host" where
  "getLocal = (\<lambda>(l, s). (Normal l, (l, s)))"

definition setLocal :: "'l \<Rightarrow> (unit, 'l \<times> 's) host" where
  "setLocal l' = (\<lambda>(l, s). (Normal (), (l', s)))"

definition withLocal :: "'l \<Rightarrow> ('a, 'l \<times> 's) host \<Rightarrow> ('a, 's) host" where
  "withLocal l m = (\<lambda>s. case m (l, s) of (r, (l', s')) \<Rightarrow> (r, s'))"

definition interceptorAfter :: "'s config option \<Rightarrow> node \<Rightarrow> val \<Rightarrow> environment \<Rightarrow> (unit, bool \<times> 's) host" where
  "interceptorAfter cfg n v env =
     andThen getLocal (\<lambda>calledAfterInterceptor.
       if calledAfterInterceptor then ret ()
       else andThen
              (lift (case cfg of None \<Rightarrow> ret () | Some cf \<Rightarrow> callInterceptor n cf (OfValue v) env Exit))
              (\<lambda>_. setLocal True))"

definition set_location :: "packet \<Rightarrow> node \<Rightarrow> packet" where
  "set_location p n = Packet (ptype p) (pvalue p) (Some n) (pmessage p)"

definition evaluateMetaFunction ::
  "(node \<Rightarrow> environment \<Rightarrow> 's config option \<Rightarrow> behaviour) \<Rightarrow> 's metaFunction \<Rightarrow>
   's callback \<Rightarrow> 's callback \<Rightarrow> val \<Rightarrow> val list \<Rightarrow> (unit, 's) host" where
  "evaluateMetaFunction ev metaFunction c cerr thisObject args =
     (let fn = mf_e metaFunction; closure = mf_closure metaFunction; cfg = mf_config metaFunction in
      tryCatch
        (andThen
           (bindParams cfg (params fn) args 0 [(''this'', thisObject), (''arguments'', Arr args)])
           (\<lambda>vs.
              let env = Environment vs (Some closure) in
              andThen
                (case cfg of
                   None \<Rightarrow> ret ()
                 | Some cf \<Rightarrow> callInterceptor (Function fn) cf (OfMetaFunction fn closure) env Enter)
                (\<lambda>_. withLocal False
                   (run (ev (body fn) env cfg)
                      (\<lambda>result.
                         andThen (lift (c result))
                           (\<lambda>_. interceptorAfter cfg (Function fn) result env))
                      (\<lambda>exception.
                         andThen
                           (if ptype exception = ''ReturnStatement''
                            then lift (c (pvalue exception))
                            else (let exception' = set_location exception (Function fn) in
                                  andThen (lift (cerr (Exc exception')))
                                    (\<lambda>_. throw (pvalue exception'))))
                           (\<lambda>_. interceptorAfter cfg (Function fn) (pvalue exception) env))))))
        cerr)"

text \<open>
  Reading \<open>exception.value\<close> off whatever the error continuation was given: a host
  \<open>TypeError\<close> on \<open>undefined\<close> and \<open>null\<close>, \<open>undefined\<close> where there is no such property.
\<close>

definition TypeError :: val where
  "TypeError = Obj [(''name'', Str ''TypeError'')]"

fun value_of :: "val \<Rightarrow> val completion" where
  "value_of Undefined = Throw TypeError"
| "value_of Null = Throw TypeError"
| "value_of (Exc p) = Normal (pvalue p)"
| "value_of (Obj ps) = Normal (get_prop ps ''value'')"
| "value_of v = Normal Undefined"

text \<open>
  The wrapper runs \<open>evaluateMetaFunction\<close> with its locals \<open>result\<close> and \<open>error\<close> beside
  the state; the configured callbacks work on the state as before.
\<close>

definition liftConfig :: "'s config \<Rightarrow> ('l \<times> 's) config" where
  "liftConfig cf =
     \<lparr>interceptor = map_option (\<lambda>f evn. lift (f evn)) (interceptor cf),
      scriptId = scriptId cf,
      onError = map_option (\<lambda>h v. lift (h v)) (onError cf)\<rparr>"

definition createMetaFunctionWrapper ::
  "(node \<Rightarrow> environment \<Rightarrow> 's config option \<Rightarrow> behaviour) \<Rightarrow> 's metaFunction \<Rightarrow>
   val \<Rightarrow> val list \<Rightarrow> (val, 's) host" where
  "createMetaFunctionWrapper ev metaFunction this args =
     (let cfg = mf_config metaFunction in
      withLocal (Undefined, Undefined)
        (andThen
           (evaluateMetaFunction
              (\<lambda>n env _. ev n env cfg)
              \<lparr>mf_e = mf_e metaFunction, mf_closure = mf_closure metaFunction,
               mf_config = map_option liftConfig cfg\<rparr>
              (\<lambda>r. andThen getLocal (\<lambda>(result, error). setLocal (r, error)))
              (\<lambda>exception.
                 andThen getLocal (\<lambda>(result, error).
                   case value_of exception of
                     Throw x \<Rightarrow> throw x
                   | Normal v \<Rightarrow> andThen (setLocal (result, v))
                                  (\<lambda>_. lift (notifyOnError cfg exception))))
              this args)
           (\<lambda>_. andThen getLocal (\<lambda>(result, error).
              if truthy error then throw error else ret result))))"

section \<open>Observing a run\<close>

text \<open>
  The caller's continuations, the interceptor and the \<open>onError\<close> hook as observers: each
  records its call and returns.
\<close>

datatype event =
    Called_c val
  | Called_cerr val
  | Intercepted evaluation
  | Called_onError val

definition c_obs :: "event list callback" where
  "c_obs v = (\<lambda>s. (Normal (), s @ [Called_c v]))"

definition cerr_obs :: "event list callback" where
  "cerr_obs v = (\<lambda>s. (Normal (), s @ [Called_cerr v]))"

definition interceptor_obs :: "evaluation \<Rightarrow> (unit, event list) host" where
  "interceptor_obs evn = (\<lambda>s. (Normal (), s @ [Intercepted evn]))"

definition onError_obs :: "event list callback" where
  "onError_obs v = (\<lambda>s. (Normal (), s @ [Called_onError v]))"

definition observed :: "string option \<Rightarrow> event list config" where
  "observed sid = \<lparr>interceptor = Some interceptor_obs, scriptId = sid, onError = Some onError_obs\<rparr>"

text \<open>
  Observers that may throw: each records its call and then returns or throws, as \<open>d\<close>
  decides from what it was called with.
\<close>

definition interceptor_rec :: "(evaluation \<Rightarrow> val option) \<Rightarrow> evaluation \<Rightarrow> (unit, event list) host" where
  "interceptor_rec d evn =
     (\<lambda>s. (case d evn of None \<Rightarrow> Normal () | Some x \<Rightarrow> Throw x, s @ [Intercepted evn]))"

definition onError_rec :: "(val \<Rightarrow> val option) \<Rightarrow> event list callback" where
  "onError_rec d v =
     (\<lambda>s. (case d v of None \<Rightarrow> Normal () | Some x \<Rightarrow> Throw x, s @ [Called_onError v]))"

definition observed_with :: "(evaluation \<Rightarrow> val option) \<Rightarrow> string option \<Rightarrow> event list config" where
  "observed_with d sid =
     \<lparr>interceptor = Some (interceptor_rec d), scriptId = sid, onError = Some onError_obs\<rparr>"

section \<open>Base evaluators\<close>

text \<open>The frames of a scope chain, nearest first.\<close>

fun frames :: "environment \<Rightarrow> environment list" where
  "frames (Environment vs None) = [Environment vs None]"
| "frames (Environment vs (Some outer)) = Environment vs (Some outer) # frames outer"

text \<open>
  Modelled from the spec: \<open>getValue(name, c, cerr, env)\<close> (imported from \<open>../environment\<close>,
  which is not among the sources). It walks \<open>prev\<close> until a frame binds the name and hands
  the value to \<open>c\<close>; when the chain ends it hands an exception to \<open>cerr\<close>. The exception
  it builds for a name is the parameter \<open>unbound\<close>.
\<close>

fun getValue :: "(string \<Rightarrow> packet) \<Rightarrow> string \<Rightarrow> 's callback \<Rightarrow> (packet \<Rightarrow> (unit, 's) host) \<Rightarrow> environment \<Rightarrow> (unit, 's) host" where
  "getValue unbound x c cerr (Environment vs outer) =
     (if has_prop vs x then c (get_prop vs x)
      else (case outer of
              None \<Rightarrow> cerr (unbound x)
            | Some env \<Rightarrow> getValue unbound x c cerr env))"

definition Identifier_eval ::
  "(string \<Rightarrow> packet) \<Rightarrow> node \<Rightarrow> 's callback \<Rightarrow> 's callback \<Rightarrow> environment \<Rightarrow> (unit, 's) host" where
  "Identifier_eval unbound e c cerr env =
     getValue unbound (name e) c (\<lambda>exception. cerr (Exc (set_location exception e))) env"

text \<open>
  \<open>SetProperty\<close>. The object is a host value whose state is kept beside the state, since
  the call changes it in place. What the host does is a parameter: \<open>hget\<close> reads
  \<open>object[property]\<close> and \<open>hput\<close> writes it, and either may throw (the object is \<open>null\<close> or
  \<open>undefined\<close>, the property is read-only or the object frozen, an accessor throws);
  \<open>bop\<close> is the host's binary operators, which may throw too: \<open>o[p] += v\<close> reads \<open>o[p]\<close>,
  applies \<open>bop ''+''\<close> to it and \<open>v\<close>, writes the result and yields it. \<open>SetProperty\<close> has
  no \<open>try\<close>, so a host throw leaves it.
\<close>

type_synonym 'o hget = "'o \<Rightarrow> string \<Rightarrow> val completion"
type_synonym 'o hput = "'o \<Rightarrow> string \<Rightarrow> val \<Rightarrow> unit completion \<times> 'o"
type_synonym hbop = "string \<Rightarrow> val \<Rightarrow> val \<Rightarrow> val completion"

text \<open>\<open>c((object[property] = r))\<close>.\<close>

definition assign :: "'o hput \<Rightarrow> string \<Rightarrow> val \<Rightarrow> 's callback \<Rightarrow> (unit, 'o \<times> 's) host" where
  "assign hput property r c =
     andThen getLocal (\<lambda>object.
       case hput object property r of
         (Throw x, object') \<Rightarrow> andThen (setLocal object') (\<lambda>_. throw x)
       | (Normal u, object') \<Rightarrow> andThen (setLocal object') (\<lambda>_. lift (c r)))"

text \<open>\<open>c((object[property] op= v))\<close>.\<close>

definition compound ::
  "'o hget \<Rightarrow> 'o hput \<Rightarrow> hbop \<Rightarrow> string \<Rightarrow> string \<Rightarrow> val \<Rightarrow> 's callback \<Rightarrow> (unit, 'o \<times> 's) host" where
  "compound hget hput bop property op v c =
     andThen getLocal (\<lambda>object.
       case hget object property of
         Throw x \<Rightarrow> throw x
       | Normal old \<Rightarrow>
           (case bop op old v of
              Throw x \<Rightarrow> throw x
            | Normal r \<Rightarrow> assign hput property r c))"

definition SetProperty ::
  "'o hget \<Rightarrow> 'o hput \<Rightarrow> hbop \<Rightarrow> string \<Rightarrow> val \<Rightarrow> string \<Rightarrow>
   's callback \<Rightarrow> 's callback \<Rightarrow> (unit, 'o \<times> 's) host" where
  "SetProperty hget hput bop property v operator c cerr =
     (if operator = ''='' then assign hput property v c
      else if operator = ''+='' then compound hget hput bop property ''+'' v c
      else if operator = ''-='' then compound hget hput bop property ''-'' v c
      else if operator = ''*='' then compound hget hput bop property ''*'' v c
      else if operator = ''/='' then compound hget hput bop property ''/'' v c
      else if operator = ''%='' then compound hget hput bop property ''%'' v c
      else if operator = ''<<='' then compound hget hput bop property ''<<'' v c
      else if operator = ''>>='' then compound hget hput bop property ''>>'' v c
      else if operator = ''>>>='' then compound hget hput bop property ''>>>'' v c
      else if operator = ''&='' then compound hget hput bop property ''&'' v c
      else if operator = ''|='' then compound hget hput bop property ''|'' v c
      else if operator = ''^='' then compound hget hput bop property ''^'' v c
      else lift (cerr (NotImplementedException
                         (''Operator '' @ [CHR 0x27] @ operator @ [CHR 0x27] @ '' is not supported.'')
                         None)))"

text \<open>
  Three kinds of host value as the object of \<open>SetProperty\<close>: \<open>null\<close> or \<open>undefined\<close>, where
  reading or writing a property throws a \<open>TypeError\<close>; an ordinary object with writable
  own data properties; a frozen object, where a write throws a \<open>TypeError\<close> in strict code.
\<close>

datatype hostobject = Nullish | Plain props | Frozen props

fun js_get :: "hostobject hget" where
  "js_get Nullish k = Throw TypeError"
| "js_get (Plain ps) k = Normal (get_prop ps k)"
| "js_get (Frozen ps) k = Normal (get_prop ps k)"

fun js_put :: "hostobject hput" where
  "js_put Nullish k v = (Throw TypeError, Nullish)"
| "js_put (Plain ps) k v = (Normal (), Plain (assign_prop ps k v))"
| "js_put (Frozen ps) k v = (Throw TypeError, Frozen ps)"

section \<open>The evaluation context\<close>

text \<open>
  A source is a parsed node, a host function (kept as its text) or a string. The parser
  (imported from \<open>./parse\<close>, not among the sources) is a parameter: it yields a node or
  throws. Its second argument is the options object.
\<close>

datatype source = Ast node | Fn string | Text string

type_synonym parser = "string \<Rightarrow> (bool \<times> bool) option \<Rightarrow> val + node"

definition parseFunction :: "parser \<Rightarrow> string \<Rightarrow> val + node" where
  "parseFunction parse fn = parse (''('' @ fn @ '')'') (Some (False, False))"

text \<open>
  The environment argument of \<open>metaesEval\<close>: an \<open>Environment\<close>, which has a \<open>values\<close> key
  and is taken as the frame it is, or some other object, kept as its own keys. The test
  \<open>"values" in environment\<close> takes such an object too as the frame it is when it has a key
  named \<open>values\<close>: the frame's bindings and \<open>prev\<close> are then what its keys \<open>values\<close> and
  \<open>prev\<close> hold (no bindings where \<open>values\<close> holds no object). Otherwise the object's keys
  are the bindings of a frame without \<open>prev\<close>.
\<close>

datatype env_arg = Frame environment | Bindings props

fun props_of :: "val \<Rightarrow> props" where
  "props_of (Obj ps) = ps"
| "props_of v = []"

function env_of :: "val \<Rightarrow> environment option" where
  "env_of (Obj ps) = Some (Environment (props_of (get_prop ps ''values'')) (env_of (get_prop ps ''prev'')))"
| "env_of Undefined = None"
| "env_of Null = None"
| "env_of (Bool b) = None"
| "env_of (Num n) = None"
| "env_of (Str t) = None"
| "env_of (Arr xs) = None"
| "env_of (Exc p) = None"
  by pat_completeness auto
termination
proof (relation "measure size")
  show "wf (measure size)" by simp
next
  fix ps :: props
  have "size (get_prop ps k) \<le> size_list (size_prod (\<lambda>x. 0) size) ps" for k
    by (induction ps) auto
  then show "(get_prop ps ''prev'', Obj ps) \<in> measure size"
    by (simp add: less_Suc_eq_le)
qed

definition frame_of :: "env_arg \<Rightarrow> environment" where
  "frame_of environment =
     (case environment of
        Frame en \<Rightarrow> en
      | Bindings vs \<Rightarrow>
          if has_prop vs ''values''
          then Environment (props_of (get_prop vs ''values'')) (env_of (get_prop vs ''prev''))
          else Environment vs None)"

text \<open>\<open>"" + n\<close> for a counter \<open>n\<close>.\<close>

fun string_of_nat :: "nat \<Rightarrow> string" where
  "string_of_nat n =
     (if n < 10 then [''0123456789'' ! n]
      else string_of_nat (n div 10) @ [''0123456789'' ! (n mod 10)])"

definition noop :: "evaluation \<Rightarrow> (unit, 's) host" where
  "noop evn = ret ()"

text \<open>
  \<open>typeof source === "object" ? source : typeof source === "function" ? parseFunction(source) : parse(source)\<close>.
\<close>

definition resolve :: "parser \<Rightarrow> source \<Rightarrow> val + node" where
  "resolve parse src = (case src of Ast n \<Rightarrow> Inr n | Fn f \<Rightarrow> parseFunction parse f | Text t \<Rightarrow> parse t None)"

text \<open>\<open>!config.scriptId\<close>: absent or the empty string.\<close>

definition no_scriptId :: "'s config \<Rightarrow> bool" where
  "no_scriptId cf = (case scriptId cf of None \<Rightarrow> True | Some sid \<Rightarrow> sid = [])"

text \<open>
  \<open>metaesEval\<close> up to its call of \<open>evaluate\<close>: the config object is changed in place and
  the module's \<open>scriptIdsCounter\<close> read and incremented, so both are returned with the
  outcome, which is the value thrown by the parser or the node and frame to evaluate.
\<close>

definition prepare ::
  "parser \<Rightarrow> source \<Rightarrow> env_arg \<Rightarrow> 's config \<Rightarrow> nat \<Rightarrow> (val + node \<times> environment) \<times> 's config \<times> nat" where
  "prepare parse src environment config0 scriptIdsCounter =
     (let config1 = (if interceptor config0 = None then config0\<lparr>interceptor := Some noop\<rparr> else config0) in
      case resolve parse src of
        Inl e \<Rightarrow> (Inl e, config1, scriptIdsCounter)
      | Inr n \<Rightarrow>
          (let env = frame_of environment in
           if no_scriptId config1
           then (Inr (n, env), config1\<lparr>scriptId := Some (string_of_nat scriptIdsCounter)\<rparr>,
                 Suc scriptIdsCounter)
           else (Inr (n, env), config1, scriptIdsCounter)))"

text \<open>
  The rest of \<open>metaesEval\<close>: the call of \<open>evaluate\<close> with the continuations
  \<open>val => c && c(val)\<close> and \<open>exception => cerr && cerr(exception)\<close>, and the \<open>catch\<close>,
  which also receives what the parser threw.
\<close>

definition dispatch ::
  "(node \<Rightarrow> environment \<Rightarrow> 's config option \<Rightarrow> behaviour) \<Rightarrow> val + node \<times> environment \<Rightarrow>
   's config \<Rightarrow> 's callback option \<Rightarrow> 's callback option \<Rightarrow> (unit, 's) host" where
  "dispatch ev outcome cf c cerr =
     tryCatch
       (case outcome of
          Inl e \<Rightarrow> throw e
        | Inr (n, env) \<Rightarrow>
            run (ev n env (Some cf))
              (\<lambda>v. case c of None \<Rightarrow> ret () | Some f \<Rightarrow> f v)
              (\<lambda>exception. case cerr of None \<Rightarrow> ret () | Some f \<Rightarrow> f (Exc exception)))
       (\<lambda>e. case cerr of None \<Rightarrow> throw e | Some f \<Rightarrow> f e)"

text \<open>
  \<open>metaesEval\<close>: the result is what the call did on the state, the config object as the
  call left it, and the counter.
\<close>

definition metaesEval ::
  "parser \<Rightarrow> (node \<Rightarrow> environment \<Rightarrow> 's config option \<Rightarrow> behaviour) \<Rightarrow> source \<Rightarrow>
   's callback option \<Rightarrow> 's callback option \<Rightarrow> env_arg \<Rightarrow> 's config \<Rightarrow> nat \<Rightarrow> 's \<Rightarrow>
   (unit completion \<times> 's) \<times> 's config \<times> nat" where
  "metaesEval parse ev src c cerr environment config0 scriptIdsCounter s =
     (case prepare parse src environment config0 scriptIdsCounter of
        (outcome, config', counter') \<Rightarrow> (dispatch ev outcome config' c cerr s, config', counter'))"

text \<open>
  Config objects have an identity: \<open>MetaesContext.evaluate\<close> copies one and \<open>metaesEval\<close>
  writes to the copy. They are kept in a list, an object's address being its index; the
  context holds the address of its default config, and a caller passes the address of the
  config it supplies.
\<close>

type_synonym 's objects = "'s config list"

record 's MetaesContext =
  ctx_c :: "'s callback option"
  ctx_cerr :: "'s callback option"
  ctx_environment :: environment
  ctx_config :: nat

text \<open>A frame as the host object it is: the keys \<open>values\<close> and, where there is one, \<open>prev\<close>.\<close>

fun val_of_env :: "environment \<Rightarrow> val" where
  "val_of_env (Environment vs None) = Obj [(''values'', Obj vs)]"
| "val_of_env (Environment vs (Some outer)) = Obj [(''values'', Obj vs), (''prev'', val_of_env outer)]"

text \<open>
  \<open>Object.assign(target, source)\<close> on a target made by an object literal: every own key of
  the source is written to the target, in the order of the source.
\<close>

definition Object_assign :: "props \<Rightarrow> props \<Rightarrow> props" where
  "Object_assign target source = fold (\<lambda>(k, v) t. assign_prop t k v) source target"

text \<open>
  \<open>MetaesContext.evaluate\<close>. The environment argument is an object, kept as its own keys,
  or absent; with one, \<open>Object.assign({ prev: this.environment }, environment)\<close> writes
  its keys over a new object whose \<open>prev\<close> is the root, so a \<open>prev\<close> of the argument's own
  replaces the root, and \<open>metaesEval\<close> then tests that object for a \<open>values\<close> key.
  \<open>Object.assign({}, config || this.config)\<close> makes a new config object with the keys of
  one of the two, at the next free address; \<open>metaesEval\<close> is given that object and writes
  to it. The result is what the call did on the state, the config objects after the call,
  and the counter.
\<close>

definition MetaesContext_evaluate ::
  "parser \<Rightarrow> (node \<Rightarrow> environment \<Rightarrow> 's config option \<Rightarrow> behaviour) \<Rightarrow> 's MetaesContext \<Rightarrow> source \<Rightarrow>
   's callback option \<Rightarrow> 's callback option \<Rightarrow> props option \<Rightarrow> nat option \<Rightarrow>
   's objects \<Rightarrow> nat \<Rightarrow> 's \<Rightarrow> (unit completion \<times> 's) \<times> 's objects \<times> nat" where
  "MetaesContext_evaluate parse ev this src c cerr environment cfg objects scriptIdsCounter s =
     (let env = (case environment of
                   None \<Rightarrow> Frame (ctx_environment this)
                 | Some keys \<Rightarrow>
                     Bindings (Object_assign [(''prev'', val_of_env (ctx_environment this))] keys));
          copy = length objects;
          objects1 = objects @ [objects ! (case cfg of Some a \<Rightarrow> a | None \<Rightarrow> ctx_config this)]
      in case metaesEval parse ev src
                (case c of Some f \<Rightarrow> Some f | None \<Rightarrow> ctx_c this)
                (case cerr of Some f \<Rightarrow> Some f | None \<Rightarrow> ctx_cerr this)
                env
                (objects1 ! copy) scriptIdsCounter s of
           (res, config', counter') \<Rightarrow> (res, objects1[copy := config'], counter'))"

section \<open>Notions used in the statements\<close>

text \<open>A parameter of a type other than \<open>Identifier\<close> and \<open>RestElement\<close>.\<close>

fun unsupported :: "node \<Rightarrow> bool" where
  "unsupported (Identifier x) = False"
| "unsupported (RestElement x) = False"
| "unsupported p = True"

text \<open>No parameter follows a \<open>RestElement\<close>, as in every parsed parameter list.\<close>

fun rest_last :: "node list \<Rightarrow> bool" where
  "rest_last [] = True"
| "rest_last (RestElement x # ps) = (ps = [])"
| "rest_last (p # ps) = rest_last ps"

text \<open>The names that the parameters of a list bind.\<close>

fun param_names :: "node list \<Rightarrow> string list" where
  "param_names [] = []"
| "param_names (Identifier x # ps) = x # param_names ps"
| "param_names (RestElement x # ps) = x # param_names ps"
| "param_names (p # ps) = param_names ps"

text \<open>
  Parameter binding as the specification words it: an \<open>Identifier\<close> takes \<open>args[i]\<close> and
  \<open>i\<close> advances; a \<open>RestElement\<close> takes the arguments from \<open>i\<close> on, the empty array when
  none remain, and binding stops there; any other pattern raises \<open>NotImplementedException\<close>
  after notifying \<open>onError\<close>.
\<close>

fun bindParams_spec :: "'s config option \<Rightarrow> node list \<Rightarrow> val list \<Rightarrow> nat \<Rightarrow> props \<Rightarrow> (props, 's) host" where
  "bindParams_spec cfg [] args i vs = ret vs"
| "bindParams_spec cfg (Identifier x # ps) args i vs =
     bindParams_spec cfg ps args (Suc i) (set_prop vs x (if i < length args then args ! i else Undefined))"
| "bindParams_spec cfg (RestElement x # ps) args i vs =
     ret (set_prop vs x (if i < length args then Arr (drop i args) else Arr []))"
| "bindParams_spec cfg (param # ps) args i vs =
     (let error = NotImplementedException
                    (''Not supported type ('' @ node_type param @ '') of function param.'') (Some param)
      in andThen (notifyOnError cfg error) (\<lambda>_. throw error))"

text \<open>The exit-phase interceptor events for a node in a trace.\<close>

fun is_exit :: "node \<Rightarrow> event \<Rightarrow> bool" where
  "is_exit n (Intercepted evn) = (ev_phase evn = Exit \<and> ev_e evn = n)"
| "is_exit n ev = False"

definition exits :: "node \<Rightarrow> event list \<Rightarrow> nat" where
  "exits n tr = length (filter (is_exit n) tr)"

text \<open>The assignment operators the specification lists.\<close>

definition assignment_operators :: "string list" where
  "assignment_operators =
     [''='', ''+='', ''-='', ''*='', ''/='', ''%='', ''<<='', ''>>='', ''>>>='', ''&='', ''|='', ''^='']"

text \<open>
  A shallow merge of two config objects as the specification words it,
  \<open>Object.assign({}, defaults, supplied)\<close>: a key of the supplied config wins, a key it
  lacks comes from the defaults.
\<close>

definition shallowMerge :: "'s config \<Rightarrow> 's config \<Rightarrow> 's config" where
  "shallowMerge defaults supplied =
     \<lparr>interceptor = (case interceptor supplied of Some f \<Rightarrow> Some f | None \<Rightarrow> interceptor defaults),
      scriptId = (case scriptId supplied of Some sid \<Rightarrow> Some sid | None \<Rightarrow> scriptId defaults),
      onError = (case onError supplied of Some h \<Rightarrow> Some h | None \<Rightarrow> onError defaults)\<rparr>"

text \<open>
  The config object as a call of \<open>metaesEval\<close> that reaches \<open>evaluate\<close> leaves it, for
  the counter at the time of the call: a no-op interceptor where there was none, the
  counter as \<open>scriptId\<close> where there was none.
\<close>

definition written :: "'s config \<Rightarrow> nat \<Rightarrow> 's config" where
  "written cf counter =
     \<lparr>interceptor = (case interceptor cf of None \<Rightarrow> Some noop | Some f \<Rightarrow> Some f),
      scriptId = (if no_scriptId cf then Some (string_of_nat counter) else scriptId cf),
      onError = onError cf\<rparr>"

text \<open>The exception raised for an unsupported parameter.\<close>

definition unsupported_error :: "node \<Rightarrow> val" where
  "unsupported_error param =
     NotImplementedException (''Not supported type ('' @ node_type param @ '') of function param.'') (Some param)"

text \<open>Small inputs for the closed statements.\<close>

definition fn_noparams :: function_node where
  "fn_noparams = FunctionNode ''FunctionExpression'' [] (OtherNode ''BlockStatement'')"

definition mf_noparams :: "event list metaFunction" where
  "mf_noparams = \<lparr>mf_e = fn_noparams, mf_closure = Environment [] None, mf_config = Some (observed (Some ''0''))\<rparr>"

text \<open>
  A body that ends in \<open>throw v\<close>: the evaluator calls the error continuation once with the
  \<open>ThrowStatement\<close> packet. In \<open>throws\<close> it lets a host throw coming out of that call
  pass through; in \<open>throws_caught\<close> it catches such a throw and returns.
\<close>

definition throws :: "val \<Rightarrow> node \<Rightarrow> environment \<Rightarrow> 's config option \<Rightarrow> behaviour" where
  "throws v n env cfg = CallCerr (Packet ''ThrowStatement'' v None None) (uncaught Return)"

definition throws_caught :: "val \<Rightarrow> node \<Rightarrow> environment \<Rightarrow> 's config option \<Rightarrow> behaviour" where
  "throws_caught v n env cfg = CallCerr (Packet ''ThrowStatement'' v None None) (\<lambda>r. Return)"

text \<open>
  The arrow function \<open>(a, {b}, c) => ...\<close> under a config whose \<open>onError\<close> hook records its
  call and then returns or throws as \<open>d\<close> decides.
\<close>

definition mf_pattern :: "(val \<Rightarrow> val option) \<Rightarrow> event list metaFunction" where
  "mf_pattern d =
     \<lparr>mf_e = FunctionNode ''ArrowFunctionExpression''
               [Identifier ''a'', OtherNode ''ObjectPattern'', Identifier ''c'']
               (OtherNode ''BlockStatement''),
      mf_closure = Environment [] None,
      mf_config = Some \<lparr>interceptor = Some interceptor_obs, scriptId = None,
                         onError = Some (onError_rec d)\<rparr>\<rparr>"

text \<open>An interceptor that throws when it is called in the exit phase.\<close>

definition exit_throws :: "evaluation \<Rightarrow> val option" where
  "exit_throws evn = (if ev_phase evn = Exit then Some (Str ''boom'') else None)"

text \<open>A host operator that returns a record of its operands.\<close>

definition bop_rec :: hbop where
  "bop_rec op a b = Normal (Arr [Str op, a, b])"

text \<open>
  A context with observers as default continuations and a root frame binding \<open>store\<close>.
  Its default config, at address \<open>0\<close>, has an interceptor, a \<open>scriptId\<close> and an \<open>onError\<close>
  hook; the object at address \<open>1\<close> is an empty config, for a caller to supply.
\<close>

definition ctx0 :: "event list MetaesContext" where
  "ctx0 =
     \<lparr>ctx_c = Some c_obs, ctx_cerr = Some cerr_obs,
      ctx_environment = Environment [(''store'', Num 1)] None,
      ctx_config = 0\<rparr>"

definition objects0 :: "event list objects" where
  "objects0 =
     [\<lparr>interceptor = Some interceptor_obs, scriptId = Some ''ctx'', onError = Some onError_obs\<rparr>,
      \<lparr>interceptor = None, scriptId = None, onError = None\<rparr>]"

text \<open>A parser that accepts the text \<open>2+2\<close> and throws on any other text.\<close>

definition parse0 :: parser where
  "parse0 text options =
     (if text = ''2+2'' then Inr (OtherNode ''Program'') else Inl (Str ''SyntaxError''))"

text \<open>
  An evaluator that hands to \<open>c\<close> the \<open>scriptId\<close> of the config it is given and then the
  value of \<open>store\<close> in the frame behind the one it is given.
\<close>

definition ev_show :: "node \<Rightarrow> environment \<Rightarrow> 's config option \<Rightarrow> behaviour" where
  "ev_show n env cfg =
     CallC (case cfg of
              None \<Rightarrow> Undefined
            | Some cf \<Rightarrow> (case scriptId cf of None \<Rightarrow> Undefined | Some sid \<Rightarrow> Str sid))
       (\<lambda>r. CallC (case prev env of None \<Rightarrow> Undefined | Some outer \<Rightarrow> get_prop (env_values outer) ''store'')
          (\<lambda>r. Return))"

section \<open>Unfolding the host computations\<close>

lemmas host_defs =
  ret_def throw_def andThen_def tryCatch_def lift_def getLocal_def setLocal_def withLocal_def

lemmas obs_defs =
  c_obs_def cerr_obs_def interceptor_obs_def onError_obs_def observed_def

lemmas emf_defs =
  evaluateMetaFunction_def interceptorAfter_def callInterceptor_def set_location_def notifyOnError_def

section \<open>Facts about the evaluator's behaviour and the parameter loop\<close>

text \<open>
  Whatever the evaluator does with its two continuations, a property of the state that
  each continuation call preserves still holds when the evaluator is done.
\<close>

lemma run_invariant:
  assumes k: "\<And>v t. I t \<Longrightarrow> I (snd (k v t))"
      and ke: "\<And>p t. I t \<Longrightarrow> I (snd (ke p t))"
  shows "I t \<Longrightarrow> I (snd (run b k ke t))"
proof (induction b arbitrary: t)
  case Return
  then show ?case by simp
next
  case (Raise x)
  then show ?case by simp
next
  case (CallC v f)
  obtain r t' where kt: "k v t = (r, t')" by (cases "k v t")
  with k[OF CallC.prems, of v] have "I t'" by simp
  then have "I (snd (run (f r) k ke t'))" by (rule CallC.IH[OF rangeI])
  with kt show ?case by simp
next
  case (CallCerr p f)
  obtain r t' where kt: "ke p t = (r, t')" by (cases "ke p t")
  with ke[OF CallCerr.prems, of p] have "I t'" by simp
  then have "I (snd (run (f r) k ke t'))" by (rule CallCerr.IH[OF rangeI])
  with kt show ?case by simp
qed

lemma andThen_invariant:
  assumes "I (snd (m t))" and "\<And>a t'. I t' \<Longrightarrow> I (snd (f a t'))"
  shows "I (snd (andThen m f t))"
proof -
  obtain r t' where mt: "m t = (r, t')" by (cases "m t")
  with assms(1) have "I t'" by simp
  with assms(2) mt show ?thesis by (cases r) (simp_all add: andThen_def)
qed

text \<open>The loop throws at the first unsupported parameter and returns when there is none.\<close>

lemma bindParams_unsupported:
  "find unsupported ps = Some p \<Longrightarrow>
   bindParams cfg ps args i vs =
     andThen (notifyOnError cfg (unsupported_error p)) (\<lambda>_. throw (unsupported_error p))"
  by (induction cfg ps args i vs rule: bindParams.induct) (auto simp: unsupported_error_def Let_def)

lemma bindParams_supported:
  "find unsupported ps = None \<Longrightarrow> \<exists>vs'. bindParams cfg ps args i vs = ret vs'"
  by (induction cfg ps args i vs rule: bindParams.induct) auto

lemma exits_append [simp]: "exits n (tr @ tr') = exits n tr + exits n tr'"
  by (simp add: exits_def)

lemma exits_Nil [simp]: "exits n [] = 0"
  by (simp add: exits_def)

lemma exits_Cons [simp]:
  "exits n (ev # tr) = (if is_exit n ev then Suc (exits n tr) else exits n tr)"
  by (simp add: exits_def)

lemma bindParams_exits_with:
  "exits n (snd (bindParams (map_option (observed_with d) sid) ps args i vs s)) = exits n s"
proof (cases "find unsupported ps")
  case None
  from bindParams_supported[OF this, of "map_option (observed_with d) sid" args i vs]
  obtain vs' where "bindParams (map_option (observed_with d) sid) ps args i vs = ret vs'" by blast
  then show ?thesis by (simp add: host_defs)
next
  case (Some p)
  show ?thesis
    by (cases sid)
       (simp_all add: bindParams_unsupported[OF Some] notifyOnError_def host_defs obs_defs observed_with_def)
qed

section \<open>The host callable of a meta-function\<close>

lemma tryCatch_fst:
  assumes "\<And>a. P (Normal a)" and "\<And>x t'. P (fst (h x t'))"
  shows "P (fst (tryCatch m h t))"
proof (cases "m t")
  case (Pair r t')
  with assms show ?thesis by (cases r) (simp_all add: tryCatch_def)
qed

lemma truthy_TypeError: "truthy TypeError"
  by (simp add: TypeError_def)

lemma value_of_Throw: "value_of x = Throw y \<Longrightarrow> y = TypeError"
  by (cases x) auto

text \<open>
  Claim C1 has the host callable throw the error packet's value, falsy values included.
  The code does not: the callable ends in \<open>if (error) { throw error; } return result;\<close>,
  so whatever the evaluator of the body does, the callable never throws a falsy value
  (\<open>0\<close>, \<open>false\<close>, \<open>undefined\<close>, \<open>null\<close>, the empty string). The config is absent or has
  observers as interceptor and \<open>onError\<close> hook.
\<close>

theorem createMetaFunctionWrapper_never_throws_falsy:
  assumes "\<not> truthy v"
  shows "fst (createMetaFunctionWrapper ev
                \<lparr>mf_e = fn, mf_closure = closure, mf_config = map_option observed sid\<rparr>
                this args s) \<noteq> Throw v"
proof -
  let ?cfg = "map_option observed sid :: event list config option"
  let ?wcerr = "\<lambda>exception.
                 andThen getLocal (\<lambda>(result, error).
                   case value_of exception of
                     Throw x \<Rightarrow> throw x
                   | Normal v \<Rightarrow> andThen (setLocal (result, v))
                                  (\<lambda>_. lift (notifyOnError ?cfg exception)))
                 :: (unit, (val \<times> val) \<times> event list) host"
  let ?P = "\<lambda>r :: unit completion. r = Normal () \<or> r = Throw TypeError"
  have h: "?P (fst (?wcerr x t'))" for x t'
  proof -
    obtain res err b where t': "t' = ((res, err), b)" by (metis prod.exhaust)
    show ?thesis
      by (cases "value_of x"; cases sid)
         (auto simp add: t' notifyOnError_def host_defs obs_defs dest: value_of_Throw)
  qed
  define R where "R = evaluateMetaFunction (\<lambda>n env _. ev n env ?cfg)
              \<lparr>mf_e = fn, mf_closure = closure, mf_config = map_option liftConfig ?cfg\<rparr>
              (\<lambda>r. andThen getLocal (\<lambda>(result, error). setLocal (r, error)))
              ?wcerr this args ((Undefined, Undefined), s)"
  have "?P (fst R)"
    unfolding R_def evaluateMetaFunction_def Let_def
    by (rule tryCatch_fst[where P = ?P]) (simp, rule h)
  moreover obtain r res err s' where R: "R = (r, ((res, err), s'))"
    by (metis prod.exhaust)
  ultimately have r: "r = Normal () \<or> r = Throw TypeError" by simp
  have "createMetaFunctionWrapper ev
                \<lparr>mf_e = fn, mf_closure = closure, mf_config = map_option observed sid\<rparr>
                this args s
        = (case r of Throw x \<Rightarrow> (Throw x, s')
           | Normal u \<Rightarrow> if truthy err then (Throw err, s') else (Normal res, s'))"
    using R unfolding R_def
    by (cases r)
       (simp_all add: createMetaFunctionWrapper_def Let_def withLocal_def andThen_def getLocal_def
          ret_def throw_def)
  with r assms truthy_TypeError show ?thesis by auto
qed

text \<open>
  A body that ends in \<open>throw 0\<close> or \<open>throw false\<close>: the callable returns \<open>result\<close>, which
  is still \<open>undefined\<close>, whether the evaluator lets the host throw of the error continuation
  pass through (\<open>throws\<close>) or catches it (\<open>throws_caught\<close>).
\<close>

theorem createMetaFunctionWrapper_falsy_throw:
  "\<not> truthy (Num 0) \<and> \<not> truthy (Bool False)
   \<and> fst (createMetaFunctionWrapper (throws (Num 0)) mf_noparams Undefined [] []) = Normal Undefined
   \<and> fst (createMetaFunctionWrapper (throws_caught (Num 0)) mf_noparams Undefined [] []) = Normal Undefined
   \<and> fst (createMetaFunctionWrapper (throws (Bool False)) mf_noparams Undefined [] []) = Normal Undefined
   \<and> fst (createMetaFunctionWrapper (throws_caught (Bool False)) mf_noparams Undefined [] []) = Normal Undefined"
  using createMetaFunctionWrapper_never_throws_falsy[of "Num 0" "throws (Num 0)" fn_noparams
          "Environment [] None" "Some (Some ''0'')" Undefined "[]" "[]"]
  by (simp add: createMetaFunctionWrapper_def liftConfig_def emf_defs host_defs obs_defs
      mf_noparams_def fn_noparams_def throws_def throws_caught_def uncaught_def Let_def)

section \<open>The error continuation of a meta-function body\<close>

text \<open>
  Claim C2 has the exit-phase interceptor event emitted after a packet other than
  \<open>ReturnStatement\<close> is forwarded to \<open>cerr\<close>. The code does not emit it: the branch for
  such packets ends in \<open>throw exception.value\<close>, so the call of \<open>_interceptorAfter\<close> that
  follows the \<open>switch\<close> is not reached. When the parameters are bound, the evaluator of the
  body calls the error continuation with such a packet \<open>p\<close> and lets the host throw coming
  out of that call pass through, the whole trace is the enter event, the call of \<open>cerr\<close>
  with \<open>p\<close> located at the function node, and a second call of \<open>cerr\<close>, made by the
  \<open>catch\<close> of \<open>evaluateMetaFunction\<close> with the bare value; there is no exit event.
\<close>

theorem evaluateMetaFunction_error_packet_no_exit:
  assumes b: "bindParams (Some (observed sid)) (params fn) args 0
                [(''this'', thisObject), (''arguments'', Arr args)] s = (Normal vs, s1)"
      and e: "ev (body fn) (Environment vs (Some closure)) (Some (observed sid)) = CallCerr p rest"
      and r: "rest (Throw (pvalue p)) = Raise (pvalue p)"
      and t: "ptype p \<noteq> ''ReturnStatement''"
  shows "evaluateMetaFunction ev
           \<lparr>mf_e = fn, mf_closure = closure, mf_config = Some (observed sid)\<rparr>
           c_obs cerr_obs thisObject args s =
         (Normal (),
          s1 @ [Intercepted \<lparr>ev_scriptId = sid, ev_e = Function fn,
                             ev_value = OfMetaFunction fn closure,
                             ev_env = Environment vs (Some closure), ev_phase = Enter\<rparr>,
                Called_cerr (Exc (Packet (ptype p) (pvalue p) (Some (Function fn)) (pmessage p))),
                Called_cerr (pvalue p)])"
  using b e r t by (simp add: emf_defs host_defs obs_defs Let_def)

text \<open>A function without parameters whose body ends in \<open>throw 1\<close>.\<close>

theorem evaluateMetaFunction_throw_no_exit:
  "bindParams (Some (observed (Some ''0''))) (params fn_noparams) [] 0
      [(''this'', Undefined), (''arguments'', Arr [])] []
     = (Normal [(''this'', Undefined), (''arguments'', Arr [])], [])
   \<and> throws (Num 1) (body fn_noparams)
        (Environment [(''this'', Undefined), (''arguments'', Arr [])] (Some (Environment [] None)))
        (Some (observed (Some ''0'')))
     = CallCerr (Packet ''ThrowStatement'' (Num 1) None None) (uncaught Return)
   \<and> uncaught Return (Throw (Num 1)) = Raise (Num 1)
   \<and> ''ThrowStatement'' \<noteq> ''ReturnStatement''
   \<and> evaluateMetaFunction (throws (Num 1)) mf_noparams c_obs cerr_obs Undefined [] [] =
     (Normal (),
      [Intercepted \<lparr>ev_scriptId = Some ''0'', ev_e = Function fn_noparams,
          ev_value = OfMetaFunction fn_noparams (Environment [] None),
          ev_env = Environment [(''this'', Undefined), (''arguments'', Arr [])] (Some (Environment [] None)),
          ev_phase = Enter\<rparr>,
       Called_cerr (Exc (Packet ''ThrowStatement'' (Num 1) (Some (Function fn_noparams)) None)),
       Called_cerr (Num 1)])"
  using evaluateMetaFunction_error_packet_no_exit[where sid = "Some ''0''" and fn = fn_noparams
        and args = "[]" and thisObject = Undefined and s = "[]"
        and vs = "[(''this'', Undefined), (''arguments'', Arr [])]" and ?s1.0 = "[]"
        and ev = "throws (Num 1)" and closure = "Environment [] None"
        and p = "Packet ''ThrowStatement'' (Num 1) None None" and rest = "uncaught Return"]
  by (simp add: mf_noparams_def fn_noparams_def throws_def uncaught_def host_defs)

section \<open>Parameter binding\<close>

text \<open>
  Claim C3, as stated, fails, in two ways. Binding does not stop at a \<open>RestElement\<close>: for the
  parameters \<open>(...rest, x)\<close> and the arguments \<open>1, 2\<close> the loop binds \<open>rest\<close> to \<open>[1, 2]\<close>
  and goes on to bind \<open>x\<close> to \<open>args[0]\<close>, where binding as the specification words it
  leaves \<open>x\<close> unbound. And a parameter named \<open>__proto__\<close> is not bound: the write
  \<open>env.values["__proto__"] = args[0]\<close> makes no binding in the frame.
\<close>

theorem bindParams_continues_after_rest:
  "fst (bindParams (None :: event list config option) [RestElement ''rest'', Identifier ''x'']
          [Num 1, Num 2] 0 [(''this'', Undefined), (''arguments'', Arr [Num 1, Num 2])] [])
     = Normal [(''this'', Undefined), (''arguments'', Arr [Num 1, Num 2]),
               (''rest'', Arr [Num 1, Num 2]), (''x'', Num 1)]
   \<and> fst (bindParams_spec (None :: event list config option) [RestElement ''rest'', Identifier ''x'']
          [Num 1, Num 2] 0 [(''this'', Undefined), (''arguments'', Arr [Num 1, Num 2])] [])
     = Normal [(''this'', Undefined), (''arguments'', Arr [Num 1, Num 2]),
               (''rest'', Arr [Num 1, Num 2])]
   \<and> fst (bindParams (None :: event list config option) [Identifier ''__proto__'']
          [Num 1] 0 [(''this'', Undefined), (''arguments'', Arr [Num 1])] [])
     = Normal [(''this'', Undefined), (''arguments'', Arr [Num 1])]
   \<and> fst (bindParams_spec (None :: event list config option) [Identifier ''__proto__'']
          [Num 1] 0 [(''this'', Undefined), (''arguments'', Arr [Num 1])] [])
     = Normal [(''this'', Undefined), (''arguments'', Arr [Num 1]), (''__proto__'', Num 1)]"
  by (simp add: host_defs index_def slice_def assign_prop_def)

text \<open>
  Claim C3, amended: when no parameter follows a \<open>RestElement\<close> and no parameter is named
  \<open>__proto__\<close>, the loop binds the parameters as the specification words it: left to
  right, an \<open>Identifier\<close> to \<open>args[i]\<close> with \<open>i\<close> incremented, a \<open>RestElement\<close> to
  \<open>args.slice(i)\<close>, which is the empty array when no arguments remain, and binding ends
  there.
\<close>

theorem bindParams_refines_spec:
  "rest_last ps \<Longrightarrow> ''__proto__'' \<notin> set (param_names ps) \<Longrightarrow>
   bindParams cfg ps args i vs = bindParams_spec cfg ps args i vs"
  by (induction cfg ps args i vs rule: bindParams.induct)
     (auto simp: index_def slice_def assign_prop_def)

text \<open>
  The parameters \<open>(a, b, ...more)\<close> called with the one argument \<open>1\<close>: \<open>a\<close> is \<open>1\<close>,
  \<open>b\<close> is \<open>undefined\<close> and \<open>more\<close> is the empty array.
\<close>

theorem bindParams_refines_spec_witness:
  "rest_last [Identifier ''a'', Identifier ''b'', RestElement ''more'']
   \<and> ''__proto__'' \<notin> set (param_names [Identifier ''a'', Identifier ''b'', RestElement ''more''])
   \<and> bindParams (None :: event list config option)
        [Identifier ''a'', Identifier ''b'', RestElement ''more''] [Num 1] 0
        [(''this'', Undefined), (''arguments'', Arr [Num 1])] []
     = (Normal [(''this'', Undefined), (''arguments'', Arr [Num 1]),
                (''a'', Num 1), (''b'', Undefined), (''more'', Arr [])], [])"
  using bindParams_refines_spec[of "[Identifier ''a'', Identifier ''b'', RestElement ''more'']"
          "None :: event list config option" "[Num 1]" 0
          "[(''this'', Undefined), (''arguments'', Arr [Num 1])]"]
  by (simp add: host_defs)

text \<open>
  Claim C4, as stated, fails when the \<open>onError\<close> hook throws: the \<open>catch\<close> of
  \<open>evaluateMetaFunction\<close> then receives what the hook threw, and \<open>cerr\<close> is called with
  that value, not with the \<open>NotImplementedException\<close>. Here the hook throws \<open>boom\<close>.
\<close>

theorem evaluateMetaFunction_onError_throws:
  "evaluateMetaFunction (\<lambda>n env cfg. CallC (Num 1) (uncaught Return))
     (mf_pattern (\<lambda>v. Some (Str ''boom''))) c_obs cerr_obs Undefined [Num 1, Num 2] []
   = (Normal (),
      [Called_onError (unsupported_error (OtherNode ''ObjectPattern'')), Called_cerr (Str ''boom'')])"
  by (simp add: emf_defs host_defs obs_defs mf_pattern_def onError_rec_def unsupported_error_def Let_def)

text \<open>
  Claim C4, amended: when the parameter list has a parameter that is neither an
  \<open>Identifier\<close> nor a \<open>RestElement\<close>, and \<open>p\<close> is the first such parameter,
  \<open>evaluateMetaFunction\<close> raises the \<open>NotImplementedException\<close> for \<open>p\<close>, calls
  \<open>config.onError\<close> with it when a config with such a hook is there, and then calls \<open>cerr\<close>:
  with the exception when there is no hook or the hook returns, with what the hook threw
  when it throws. That is all the call does, for any continuations: the body is not
  evaluated (the evaluator does not occur), and neither \<open>c\<close> nor the interceptor is called.
\<close>

theorem evaluateMetaFunction_unsupported_param:
  assumes "find unsupported (params (mf_e m)) = Some p"
  shows "evaluateMetaFunction ev m c cerr thisObject args s =
     (case mf_config m of
        None \<Rightarrow> cerr (unsupported_error p) s
      | Some cf \<Rightarrow>
          (case onError cf of
             None \<Rightarrow> cerr (unsupported_error p) s
           | Some h \<Rightarrow>
               (case h (unsupported_error p) s of
                  (Normal u, s') \<Rightarrow> cerr (unsupported_error p) s'
                | (Throw x, s') \<Rightarrow> cerr x s')))"
  by (simp add: evaluateMetaFunction_def Let_def bindParams_unsupported[OF assms] notifyOnError_def
      host_defs split: option.splits prod.splits completion.splits)

text \<open>
  The arrow function \<open>(a, {b}, c) => ...\<close> called with \<open>1, 2\<close>, with a hook that returns and
  an evaluator that would call the success continuation: the trace is the call of
  \<open>onError\<close> and the call of \<open>cerr\<close>, both with the exception.
\<close>

theorem evaluateMetaFunction_unsupported_param_witness:
  "find unsupported (params (mf_e (mf_pattern (\<lambda>v. None)))) = Some (OtherNode ''ObjectPattern'')
   \<and> evaluateMetaFunction (\<lambda>n env cfg. CallC (Num 1) (uncaught Return))
        (mf_pattern (\<lambda>v. None)) c_obs cerr_obs Undefined [Num 1, Num 2] []
     = (Normal (),
        [Called_onError (unsupported_error (OtherNode ''ObjectPattern'')),
         Called_cerr (unsupported_error (OtherNode ''ObjectPattern''))])"
  using evaluateMetaFunction_unsupported_param[where m = "mf_pattern (\<lambda>v. None)"
          and p = "OtherNode ''ObjectPattern''" and s = "[]"
          and ev = "\<lambda>n env cfg. CallC (Num 1) (uncaught Return)"
          and c = c_obs and cerr = cerr_obs and thisObject = Undefined and args = "[Num 1, Num 2]"]
  by (simp add: mf_pattern_def onError_rec_def obs_defs)

section \<open>The exit event of a meta-function call\<close>

text \<open>
  Claim C5, as stated, fails when the interceptor throws from its exit-phase call:
  \<open>_calledAfterInterceptor = true\<close> is only reached when \<open>callInterceptor\<close> returns, so the
  guard stays open. With such an interceptor and an evaluator that calls the success
  continuation twice, the exit event for the function node is emitted twice.
\<close>

theorem evaluateMetaFunction_exit_twice:
  "exits (Function fn_noparams)
     (snd (evaluateMetaFunction
             (\<lambda>n env cfg. CallC (Num 1) (\<lambda>r. CallC (Num 2) (\<lambda>r. Return)))
             \<lparr>mf_e = fn_noparams, mf_closure = Environment [] None,
              mf_config = Some (observed_with exit_throws (Some ''0''))\<rparr>
             c_obs cerr_obs Undefined [] []))
   = 2"
  by (simp add: emf_defs host_defs obs_defs observed_with_def interceptor_rec_def exit_throws_def
      fn_noparams_def Let_def)

text \<open>
  Claim C5, amended: when the interceptor returns from every exit-phase call, one call of
  \<open>evaluateMetaFunction\<close> emits the exit-phase interceptor event for the function node at
  most once, whatever the evaluator of the body does with the two continuations (it may
  call both, or one of them several times). The interceptor records its call and may throw
  in the enter phase; the caller's \<open>c\<close> and \<open>cerr\<close> are any callbacks, returning or
  throwing, that do not themselves emit that event; the config may be absent.
\<close>

theorem evaluateMetaFunction_exit_at_most_once:
  assumes c: "\<And>v t. exits (Function fn) (snd (c v t)) = exits (Function fn) t"
      and cerr: "\<And>v t. exits (Function fn) (snd (cerr v t)) = exits (Function fn) t"
      and d: "\<And>evn. ev_phase evn = Exit \<Longrightarrow> d evn = None"
  shows "exits (Function fn)
     (snd (evaluateMetaFunction ev
             \<lparr>mf_e = fn, mf_closure = closure, mf_config = map_option (observed_with d) sid\<rparr>
             c cerr thisObject args s))
   \<le> Suc (exits (Function fn) s)"
proof -
  let ?cfg = "map_option (observed_with d) sid :: event list config option"
  let ?init = "[(''this'', thisObject), (''arguments'', Arr args)]"
  let ?n = "Function fn"
  obtain r1 s1 where b: "bindParams ?cfg (params fn) args 0 ?init s = (r1, s1)"
    by (cases "bindParams ?cfg (params fn) args 0 ?init s")
  from bindParams_exits_with[of ?n d sid "params fn" args 0 ?init s] b
  have e1: "exits ?n s1 = exits ?n s" by simp
  show ?thesis
  proof (cases r1)
    case (Throw x)
    with b e1 cerr[of x s1] show ?thesis
      by (simp add: evaluateMetaFunction_def host_defs Let_def)
  next
    case (Normal vs)
    let ?env = "Environment vs (Some closure)"
    define I :: "bool \<times> event list \<Rightarrow> bool"
      where "I = (\<lambda>(fl, t). if fl then exits ?n t \<le> Suc (exits ?n s) else exits ?n t = exits ?n s)"
    let ?k = "\<lambda>result. andThen (lift (c result)) (\<lambda>_. interceptorAfter ?cfg ?n result ?env)"
    let ?ke = "\<lambda>exception.
                 andThen
                   (if ptype exception = ''ReturnStatement''
                    then lift (c (pvalue exception))
                    else (let exception' = set_location exception ?n in
                          andThen (lift (cerr (Exc exception')))
                            (\<lambda>_. throw (pvalue exception'))))
                   (\<lambda>_. interceptorAfter ?cfg ?n (pvalue exception) ?env)"
    have after: "I (snd (interceptorAfter ?cfg ?n v ?env t))" if "I t" for v t
    proof -
      obtain fl b where t: "t = (fl, b)" by (cases t)
      with that show ?thesis
        by (cases fl; cases sid)
           (simp_all add: I_def interceptorAfter_def callInterceptor_def host_defs
              observed_with_def interceptor_rec_def d)
    qed
    have lc: "I (snd (lift (c v) t))" if "I t" for v t
    proof -
      obtain fl b where t: "t = (fl, b)" by (cases t)
      obtain r b' where cv: "c v b = (r, b')" by (cases "c v b")
      with c[of v b] have "exits ?n b' = exits ?n b" by simp
      with that t cv show ?thesis by (simp add: I_def lift_def)
    qed
    have lcerr: "I (snd (lift (cerr v) t))" if "I t" for v t
    proof -
      obtain fl b where t: "t = (fl, b)" by (cases t)
      obtain r b' where cv: "cerr v b = (r, b')" by (cases "cerr v b")
      with cerr[of v b] have "exits ?n b' = exits ?n b" by simp
      with that t cv show ?thesis by (simp add: I_def lift_def)
    qed
    have k: "I (snd (?k v t))" if "I t" for v t
      by (rule andThen_invariant) (rule lc[OF that], rule after)
    have ke: "I (snd (?ke p t))" if "I t" for p t
    proof (rule andThen_invariant)
      show "I (snd ((if ptype p = ''ReturnStatement'' then lift (c (pvalue p))
                else (let exception' = set_location p ?n in
                      andThen (lift (cerr (Exc exception'))) (\<lambda>_. throw (pvalue exception')))) t))"
      proof (cases "ptype p = ''ReturnStatement''")
        case True
        with lc[OF that] show ?thesis by simp
      next
        case False
        have "I (snd (andThen (lift (cerr (Exc (set_location p ?n))))
                        (\<lambda>_. throw (pvalue (set_location p ?n)) :: (unit, bool \<times> event list) host) t))"
          by (rule andThen_invariant) (rule lcerr[OF that], simp add: throw_def)
        with False show ?thesis by (simp add: Let_def)
      qed
    next
      fix a :: unit and t' :: "bool \<times> event list"
      assume "I t'"
      then show "I (snd (interceptorAfter ?cfg ?n (pvalue p) ?env t'))" by (rule after)
    qed
    have inv: "\<And>t. I t \<Longrightarrow> I (snd (run (ev (body fn) ?env ?cfg) ?k ?ke t))"
      by (rule run_invariant[where I = I, OF k ke])
    obtain r2 s2 where s2: "(case ?cfg of None \<Rightarrow> ret ()
                 | Some cf \<Rightarrow> callInterceptor ?n cf (OfMetaFunction fn closure) ?env Enter) s1
                = (r2, s2)"
      and e2: "exits ?n s2 = exits ?n s1"
      by (cases sid)
         (auto simp: callInterceptor_def host_defs observed_with_def interceptor_rec_def)
    show ?thesis
    proof (cases r2)
      case (Throw x)
      with b \<open>r1 = Normal vs\<close> s2 e2 e1 cerr[of x s2] show ?thesis
        by (simp add: evaluateMetaFunction_def host_defs Let_def)
    next
      case Normal2: (Normal u2)
      obtain r3 fl s3 where r3: "run (ev (body fn) ?env ?cfg) ?k ?ke (False, s2) = (r3, (fl, s3))"
        using prod_cases3 by blast
      from inv[of "(False, s2)"] r3 e2 e1 have le: "exits ?n s3 \<le> Suc (exits ?n s)"
        by (auto simp: I_def split: if_splits)
      show ?thesis
      proof (cases r3)
        case (Normal u)
        with b \<open>r1 = Normal vs\<close> s2 Normal2 r3 le show ?thesis
          by (simp add: evaluateMetaFunction_def host_defs Let_def)
      next
        case (Throw x)
        with b \<open>r1 = Normal vs\<close> s2 Normal2 r3 le cerr[of x s3] show ?thesis
          by (simp add: evaluateMetaFunction_def host_defs Let_def)
      qed
    qed
  qed
qed

text \<open>
  An evaluator that calls the success continuation, then the error continuation with a
  \<open>ReturnStatement\<close> packet, then the success continuation again, under an interceptor
  that returns: one exit event.
\<close>

theorem evaluateMetaFunction_exit_at_most_once_witness:
  "(\<forall>v t. exits (Function fn_noparams) (snd (c_obs v t)) = exits (Function fn_noparams) t)
   \<and> (\<forall>v t. exits (Function fn_noparams) (snd (cerr_obs v t)) = exits (Function fn_noparams) t)
   \<and> exits (Function fn_noparams)
     (snd (evaluateMetaFunction
             (\<lambda>n env cfg. CallC (Num 1) (\<lambda>r. CallCerr (Packet ''ReturnStatement'' (Num 2) None None)
                                             (\<lambda>r. CallC (Num 3) (\<lambda>r. Return))))
             \<lparr>mf_e = fn_noparams, mf_closure = Environment [] None,
              mf_config = map_option (observed_with (\<lambda>evn. None)) (Some (Some ''0''))\<rparr>
             c_obs cerr_obs Undefined [] []))
   = 1"
  using evaluateMetaFunction_exit_at_most_once[where fn = fn_noparams and c = c_obs and cerr = cerr_obs and d = "\<lambda>evn. None"
          and ev = "\<lambda>n env cfg. CallC (Num 1) (\<lambda>r. CallCerr (Packet ''ReturnStatement'' (Num 2) None None)
                                          (\<lambda>r. CallC (Num 3) (\<lambda>r. Return)))"
          and closure = "Environment [] None" and sid = "Some (Some ''0'')"
          and thisObject = Undefined and args = "[]" and s = "[]"]
  by (simp add: emf_defs host_defs obs_defs observed_with_def interceptor_rec_def fn_noparams_def Let_def)

text \<open>
  Claim C6: when the parameters are bound and the evaluator of the body calls the success
  continuation with \<open>result\<close>, the trace goes on from the enter event with the call
  \<open>c(result)\<close> and, right after it, the exit event for the function node carrying
  \<open>result\<close>: \<open>c\<close> is called strictly before the exit event is emitted.
\<close>

theorem evaluateMetaFunction_c_before_exit:
  assumes b: "bindParams (Some (observed sid)) (params fn) args 0
                [(''this'', thisObject), (''arguments'', Arr args)] s = (Normal vs, s1)"
      and e: "ev (body fn) (Environment vs (Some closure)) (Some (observed sid)) = CallC result rest"
  shows "\<exists>tr. snd (evaluateMetaFunction ev
                      \<lparr>mf_e = fn, mf_closure = closure, mf_config = Some (observed sid)\<rparr>
                      c_obs cerr_obs thisObject args s) =
           s1 @ [Intercepted \<lparr>ev_scriptId = sid, ev_e = Function fn,
                              ev_value = OfMetaFunction fn closure,
                              ev_env = Environment vs (Some closure), ev_phase = Enter\<rparr>,
                 Called_c result,
                 Intercepted \<lparr>ev_scriptId = sid, ev_e = Function fn, ev_value = OfValue result,
                              ev_env = Environment vs (Some closure), ev_phase = Exit\<rparr>] @ tr"
proof -
  let ?cfg = "Some (observed sid) :: event list config option"
  let ?n = "Function fn"
  let ?env = "Environment vs (Some closure)"
  let ?k = "\<lambda>result. andThen (lift (c_obs result)) (\<lambda>_. interceptorAfter ?cfg ?n result ?env)"
  let ?ke = "\<lambda>exception.
               andThen
                 (if ptype exception = ''ReturnStatement''
                  then lift (c_obs (pvalue exception))
                  else (let exception' = set_location exception ?n in
                        andThen (lift (cerr_obs (Exc exception')))
                          (\<lambda>_. throw (pvalue exception'))))
                 (\<lambda>_. interceptorAfter ?cfg ?n (pvalue exception) ?env)"
  let ?t0 = "s1 @ [Intercepted \<lparr>ev_scriptId = sid, ev_e = Function fn,
                                ev_value = OfMetaFunction fn closure,
                                ev_env = Environment vs (Some closure), ev_phase = Enter\<rparr>,
                   Called_c result,
                   Intercepted \<lparr>ev_scriptId = sid, ev_e = Function fn, ev_value = OfValue result,
                                ev_env = Environment vs (Some closure), ev_phase = Exit\<rparr>]"
  let ?I = "\<lambda>(fl :: bool, t). \<exists>tr. t = ?t0 @ tr"
  have k: "?I (snd (?k v t))" if "?I t" for v t
  proof -
    obtain fl b where t: "t = (fl, b)" by (cases t)
    with that show ?thesis
      by (cases fl) (auto simp add: interceptorAfter_def callInterceptor_def host_defs obs_defs)
  qed
  have ke: "?I (snd (?ke p t))" if "?I t" for p t
  proof -
    obtain fl b where t: "t = (fl, b)" by (cases t)
    with that show ?thesis
      by (cases fl) (auto simp add: interceptorAfter_def callInterceptor_def host_defs obs_defs Let_def)
  qed
  have inv: "?I t \<Longrightarrow> ?I (snd (run (rest (Normal ())) ?k ?ke t))" for t
    by (rule run_invariant[where I = ?I, OF k ke])
  obtain r3 fl s3 where r3: "run (rest (Normal ())) ?k ?ke (True, ?t0) = (r3, (fl, s3))"
    using prod_cases3 by blast
  from inv[of "(True, ?t0)"] r3 obtain tr where tr: "s3 = ?t0 @ tr" by auto
  show ?thesis
  proof (cases r3)
    case (Normal u)
    with b e r3 tr show ?thesis
      by (simp add: evaluateMetaFunction_def Let_def interceptorAfter_def callInterceptor_def
          host_defs obs_defs)
  next
    case (Throw x)
    with b e r3 tr show ?thesis
      by (simp add: evaluateMetaFunction_def Let_def interceptorAfter_def callInterceptor_def
          host_defs obs_defs)
  qed
qed

text \<open>
  The declared function \<open>f(x)\<close> called with \<open>21\<close>, whose body yields \<open>42\<close>: the whole
  trace is the enter event, \<open>c(42)\<close>, the exit event.
\<close>

theorem evaluateMetaFunction_c_before_exit_witness:
  "bindParams (Some (observed (Some ''7''))) (params (FunctionNode ''FunctionDeclaration'' [Identifier ''x''] (OtherNode ''BlockStatement''))) [Num 21] 0
      [(''this'', Undefined), (''arguments'', Arr [Num 21])] []
     = (Normal [(''this'', Undefined), (''arguments'', Arr [Num 21]), (''x'', Num 21)], [])
   \<and> snd (evaluateMetaFunction (\<lambda>n env cfg. CallC (Num 42) (\<lambda>r. Return))
             \<lparr>mf_e = FunctionNode ''FunctionDeclaration'' [Identifier ''x''] (OtherNode ''BlockStatement''),
              mf_closure = Environment [] None, mf_config = Some (observed (Some ''7''))\<rparr>
             c_obs cerr_obs Undefined [Num 21] [])
     = [Intercepted \<lparr>ev_scriptId = Some ''7'',
           ev_e = Function (FunctionNode ''FunctionDeclaration'' [Identifier ''x''] (OtherNode ''BlockStatement'')),
           ev_value = OfMetaFunction (FunctionNode ''FunctionDeclaration'' [Identifier ''x''] (OtherNode ''BlockStatement'')) (Environment [] None),
           ev_env = Environment [(''this'', Undefined), (''arguments'', Arr [Num 21]), (''x'', Num 21)] (Some (Environment [] None)),
           ev_phase = Enter\<rparr>,
        Called_c (Num 42),
        Intercepted \<lparr>ev_scriptId = Some ''7'',
           ev_e = Function (FunctionNode ''FunctionDeclaration'' [Identifier ''x''] (OtherNode ''BlockStatement'')),
           ev_value = OfValue (Num 42),
           ev_env = Environment [(''this'', Undefined), (''arguments'', Arr [Num 21]), (''x'', Num 21)] (Some (Environment [] None)),
           ev_phase = Exit\<rparr>]"
  using evaluateMetaFunction_c_before_exit[of "Some ''7''"
      "FunctionNode ''FunctionDeclaration'' [Identifier ''x''] (OtherNode ''BlockStatement'')" "[Num 21]" Undefined "[]"
      "[(''this'', Undefined), (''arguments'', Arr [Num 21]), (''x'', Num 21)]" "[]"
      "\<lambda>n env cfg. CallC (Num 42) (\<lambda>r. Return)" "Environment [] None" "Num 42" "\<lambda>r. Return"]
  by (simp add: emf_defs host_defs obs_defs index_def assign_prop_def Let_def)

section \<open>The Identifier evaluator\<close>

text \<open>
  Claim C7: for an \<open>Identifier\<close> node whose name no frame of the environment chain binds,
  the evaluator calls \<open>cerr\<close> once, with the exception built for the name and its
  \<open>location\<close> set to the node, and does not call \<open>c\<close>; when some frame binds the name,
  it calls \<open>c\<close> once with the value in the nearest such frame and does not call \<open>cerr\<close>.
  The call of the evaluator is that one call of the continuation, for any continuations.
\<close>

theorem Identifier_eval_unbound_or_bound:
  "Identifier_eval unbound (Identifier x) c cerr env =
     (case find (\<lambda>f. has_prop (env_values f) x) (frames env) of
        None \<Rightarrow> cerr (Exc (Packet (ptype (unbound x)) (pvalue (unbound x)) (Some (Identifier x))
                              (pmessage (unbound x))))
      | Some f \<Rightarrow> c (get_prop (env_values f) x))"
  unfolding Identifier_eval_def
  by (induction env rule: frames.induct) (simp_all add: set_location_def)

text \<open>
  The name \<open>window\<close> in a chain that does not bind it, and the names \<open>a\<close> (bound in both
  frames, the inner one wins) and \<open>b\<close> (bound in the outer frame).
\<close>

theorem Identifier_eval_unbound_or_bound_witness:
  "Identifier_eval (\<lambda>x. Packet ''ReferenceError'' Undefined None (Some (x @ '' is not defined'')))
      (Identifier ''window'') c_obs cerr_obs
      (Environment [(''a'', Num 1)] (Some (Environment [(''a'', Num 0), (''b'', Num 2)] None))) []
     = (Normal (), [Called_cerr (Exc (Packet ''ReferenceError'' Undefined (Some (Identifier ''window''))
                                        (Some ''window is not defined'')))])
   \<and> Identifier_eval (\<lambda>x. Packet ''ReferenceError'' Undefined None (Some (x @ '' is not defined'')))
      (Identifier ''a'') c_obs cerr_obs
      (Environment [(''a'', Num 1)] (Some (Environment [(''a'', Num 0), (''b'', Num 2)] None))) []
     = (Normal (), [Called_c (Num 1)])
   \<and> Identifier_eval (\<lambda>x. Packet ''ReferenceError'' Undefined None (Some (x @ '' is not defined'')))
      (Identifier ''b'') c_obs cerr_obs
      (Environment [(''a'', Num 1)] (Some (Environment [(''a'', Num 0), (''b'', Num 2)] None))) []
     = (Normal (), [Called_c (Num 2)])"
  using Identifier_eval_unbound_or_bound[of "\<lambda>x. Packet ''ReferenceError'' Undefined None (Some (x @ '' is not defined''))" "''window''" c_obs cerr_obs
           "Environment [(''a'', Num 1)] (Some (Environment [(''a'', Num 0), (''b'', Num 2)] None))"]
        Identifier_eval_unbound_or_bound[of "\<lambda>x. Packet ''ReferenceError'' Undefined None (Some (x @ '' is not defined''))" "''a''" c_obs cerr_obs
           "Environment [(''a'', Num 1)] (Some (Environment [(''a'', Num 0), (''b'', Num 2)] None))"]
        Identifier_eval_unbound_or_bound[of "\<lambda>x. Packet ''ReferenceError'' Undefined None (Some (x @ '' is not defined''))" "''b''" c_obs cerr_obs
           "Environment [(''a'', Num 1)] (Some (Environment [(''a'', Num 0), (''b'', Num 2)] None))"]
  by (simp add: obs_defs)

section \<open>SetProperty\<close>

lemma assign_apply:
  "assign hput property r c (object, s) =
     (case hput object property r of
        (Throw x, object') \<Rightarrow> (Throw x, (object', s))
      | (Normal u, object') \<Rightarrow> (case c r s of (res, s') \<Rightarrow> (res, (object', s'))))"
  by (simp add: assign_def host_defs split: prod.splits completion.splits)

lemma compound_apply:
  "compound hget hput bop property op v c (object, s) =
     (case (case hget object property of Throw x \<Rightarrow> Throw x | Normal old \<Rightarrow> bop op old v) of
        Throw x \<Rightarrow> (Throw x, (object, s))
      | Normal r \<Rightarrow> assign hput property r c (object, s))"
  by (simp add: compound_def host_defs split: completion.splits)

text \<open>
  Claim C8, as stated, fails when the host assignment itself throws: \<open>SetProperty\<close> has no
  \<open>try\<close>, so the throw leaves it and neither \<open>c\<close> nor \<open>cerr\<close> is called. So it is for
  \<open>undefined.x = 1\<close> and \<open>undefined.x += 1\<close>, and for \<open>o.x += 1\<close> on a frozen object.
\<close>

theorem SetProperty_host_throw:
  "SetProperty js_get js_put bop_rec ''x'' (Num 1) ''='' c_obs cerr_obs (Nullish, [])
     = (Throw TypeError, (Nullish, []))
   \<and> SetProperty js_get js_put bop_rec ''x'' (Num 1) ''+='' c_obs cerr_obs (Nullish, [])
     = (Throw TypeError, (Nullish, []))
   \<and> SetProperty js_get js_put bop_rec ''x'' (Num 1) ''+='' c_obs cerr_obs (Frozen [(''x'', Num 1)], [])
     = (Throw TypeError, (Frozen [(''x'', Num 1)], []))"
  by (simp add: SetProperty_def assign_def compound_def bop_rec_def host_defs obs_defs)

text \<open>
  Claim C8, amended: for an operator among \<open>=\<close>, \<open>+=\<close>, \<open>-=\<close>, \<open>*=\<close>, \<open>/=\<close>, \<open>%=\<close>, \<open><<=\<close>,
  \<open>>>=\<close>, \<open>>>>=\<close>, \<open>&=\<close>, \<open>|=\<close>, \<open>^=\<close>, \<open>SetProperty\<close> takes as result the value itself
  (for \<open>=\<close>) or what the host's operator without its \<open>=\<close> yields on the old
  \<open>object[property]\<close> and the value, writes the result to \<open>object[property]\<close> and passes it
  to \<open>c\<close>, unless the host's read, operator or write throws: then the throw leaves
  \<open>SetProperty\<close> and neither \<open>c\<close> nor \<open>cerr\<close> is called. For any other operator it calls
  \<open>cerr\<close> with a \<open>NotImplementedException\<close> and does not touch the object.
\<close>

theorem SetProperty_operators:
  "SetProperty hget hput bop property v operator c cerr (object, s) =
     (if operator \<in> set assignment_operators
      then (case (if operator = ''='' then Normal v
                  else (case hget object property of
                          Throw x \<Rightarrow> Throw x
                        | Normal old \<Rightarrow> bop (butlast operator) old v)) of
              Throw x \<Rightarrow> (Throw x, (object, s))
            | Normal r \<Rightarrow>
                (case hput object property r of
                   (Throw x, object') \<Rightarrow> (Throw x, (object', s))
                 | (Normal u, object') \<Rightarrow>
                     (case c r s of (res, s') \<Rightarrow> (res, (object', s')))))
      else (case cerr (NotImplementedException
                         (''Operator '' @ [CHR 0x27] @ operator @ [CHR 0x27] @ '' is not supported.'')
                         None) s of
              (res, s') \<Rightarrow> (res, (object, s'))))"
proof (cases "operator \<in> set assignment_operators")
  case False
  then have "SetProperty hget hput bop property v operator c cerr =
               lift (cerr (NotImplementedException
                             (''Operator '' @ [CHR 0x27] @ operator @ [CHR 0x27] @ '' is not supported.'')
                             None))"
    by (simp add: SetProperty_def assignment_operators_def)
  with False show ?thesis by (simp add: lift_def)
next
  case True
  then have "operator = ''='' \<or> operator = ''+='' \<or> operator = ''-='' \<or> operator = ''*=''
           \<or> operator = ''/='' \<or> operator = ''%='' \<or> operator = ''<<='' \<or> operator = ''>>=''
           \<or> operator = ''>>>='' \<or> operator = ''&='' \<or> operator = ''|='' \<or> operator = ''^=''"
    by (simp add: assignment_operators_def)
  then show ?thesis
    by (elim disjE)
       (simp_all add: SetProperty_def compound_apply assign_apply assignment_operators_def
          split: completion.splits)
qed

text \<open>
  \<open>o.n >>>= 2\<close> and \<open>o.n = 2\<close> on ordinary objects, and the operator \<open>**=\<close>, which is not
  supported.
\<close>

theorem SetProperty_operators_witness:
  "SetProperty js_get js_put bop_rec ''n'' (Num 2) ''>>>='' c_obs cerr_obs (Plain [(''m'', Null), (''n'', Num 1)], [])
     = (Normal (), (Plain [(''m'', Null), (''n'', Arr [Str ''>>>'', Num 1, Num 2])],
                    [Called_c (Arr [Str ''>>>'', Num 1, Num 2])]))
   \<and> SetProperty js_get js_put bop_rec ''n'' (Num 2) ''='' c_obs cerr_obs (Plain [(''m'', Null)], [])
     = (Normal (), (Plain [(''m'', Null), (''n'', Num 2)], [Called_c (Num 2)]))
   \<and> SetProperty js_get js_put bop_rec ''n'' (Num 2) ''**='' c_obs cerr_obs (Plain [(''m'', Null), (''n'', Num 1)], [])
     = (Normal (), (Plain [(''m'', Null), (''n'', Num 1)],
         [Called_cerr (NotImplementedException
                         (''Operator '' @ [CHR 0x27] @ ''**='' @ [CHR 0x27] @ '' is not supported.'') None)]))"
  using SetProperty_operators[of js_get js_put bop_rec "''n''" "Num 2" "''>>>=''" c_obs cerr_obs
          "Plain [(''m'', Null), (''n'', Num 1)]" "[]"]
        SetProperty_operators[of js_get js_put bop_rec "''n''" "Num 2" "''=''" c_obs cerr_obs "Plain [(''m'', Null)]" "[]"]
        SetProperty_operators[of js_get js_put bop_rec "''n''" "Num 2" "''**=''" c_obs cerr_obs
          "Plain [(''m'', Null), (''n'', Num 1)]" "[]"]
  by (simp add: assignment_operators_def bop_rec_def assign_prop_def obs_defs)

section \<open>The evaluation context and the shared config\<close>

lemma string_of_nat_nonempty: "string_of_nat n \<noteq> []"
  by (subst string_of_nat.simps) simp

lemma prepare_Inr:
  "resolve parse src = Inr n \<Longrightarrow>
   prepare parse src environment cf counter =
     (Inr (n, frame_of environment), written cf counter, if no_scriptId cf then Suc counter else counter)"
  by (cases "interceptor cf") (auto simp: prepare_def written_def Let_def no_scriptId_def)

lemma written_again: "written (written cf counter) counter' = written cf counter"
  by (cases "interceptor cf")
     (auto simp: written_def no_scriptId_def string_of_nat_nonempty split: option.splits)

lemma no_scriptId_written: "\<not> no_scriptId (written cf counter)"
  by (auto simp: written_def no_scriptId_def string_of_nat_nonempty split: option.splits)

lemma has_prop_iff: "has_prop ps k \<longleftrightarrow> k \<in> fst ` set ps"
  by (induction ps) auto

lemma get_prop_set_prop: "get_prop (set_prop ps k v) k' = (if k' = k then v else get_prop ps k')"
  by (induction ps) auto

lemma has_prop_set_prop: "has_prop (set_prop ps k v) k' = (k' = k \<or> has_prop ps k')"
  by (induction ps) (auto split: if_splits)

lemma Object_assign_Nil: "Object_assign target [] = target"
  by (simp add: Object_assign_def)

lemma Object_assign_Cons:
  "Object_assign target ((k, v) # source) = Object_assign (assign_prop target k v) source"
  by (simp add: Object_assign_def)

lemma get_prop_Object_assign:
  "distinct (map fst source) \<Longrightarrow> k \<noteq> ''__proto__'' \<Longrightarrow>
   get_prop (Object_assign target source) k =
     (if has_prop source k then get_prop source k else get_prop target k)"
proof (induction source arbitrary: target)
  case Nil
  then show ?case by (simp add: Object_assign_Nil)
next
  case (Cons kv source)
  obtain k' v where kv: "kv = (k', v)" by (cases kv)
  from Cons.prems have d: "distinct (map fst source)" and nk: "k' \<notin> fst ` set source"
    by (auto simp: kv)
  show ?case
    using Cons.IH[OF d Cons.prems(2), of "assign_prop target k' v"] nk Cons.prems(2)
    by (auto simp: kv Object_assign_Cons assign_prop_def get_prop_set_prop has_prop_iff)
qed

lemma has_prop_Object_assign:
  "k \<noteq> ''__proto__'' \<Longrightarrow>
   has_prop (Object_assign target source) k = (has_prop source k \<or> has_prop target k)"
proof (induction source arbitrary: target)
  case Nil
  then show ?case by (simp add: Object_assign_Nil)
next
  case (Cons kv source)
  obtain k' v where kv: "kv = (k', v)" by (cases kv)
  show ?case
    using Cons.IH[OF Cons.prems, of "assign_prop target k' v"] Cons.prems
    by (auto simp: kv Object_assign_Cons assign_prop_def has_prop_set_prop)
qed

lemma env_of_val_of_env: "env_of (val_of_env en) = Some en"
  by (induction en rule: val_of_env.induct) simp_all

lemma MetaesContext_evaluate_resolved:
  assumes "resolve parse src = Inr n"
  shows "MetaesContext_evaluate parse ev this src c cerr environment cfg objects counter s =
     (dispatch ev
        (Inr (n, frame_of (case environment of
                   None \<Rightarrow> Frame (ctx_environment this)
                 | Some keys \<Rightarrow>
                     Bindings (Object_assign [(''prev'', val_of_env (ctx_environment this))] keys))))
        (written (objects ! (case cfg of Some a \<Rightarrow> a | None \<Rightarrow> ctx_config this)) counter)
        (case c of Some f \<Rightarrow> Some f | None \<Rightarrow> ctx_c this)
        (case cerr of Some f \<Rightarrow> Some f | None \<Rightarrow> ctx_cerr this) s,
      objects @ [written (objects ! (case cfg of Some a \<Rightarrow> a | None \<Rightarrow> ctx_config this)) counter],
      if no_scriptId (objects ! (case cfg of Some a \<Rightarrow> a | None \<Rightarrow> ctx_config this))
      then Suc counter else counter)"
  by (simp add: MetaesContext_evaluate_def metaesEval_def prepare_Inr[OF assms] Let_def)

lemma frame_of_layered:
  assumes "distinct (map fst keys)" and "get_prop keys ''values'' = Obj vs"
      and "\<not> has_prop keys ''prev''"
  shows "frame_of (Bindings (Object_assign [(''prev'', val_of_env root)] keys)) = Environment vs (Some root)"
proof -
  from assms(2) have h: "has_prop keys ''values''"
    by (induction keys) (auto split: if_splits)
  show ?thesis
    using h assms(2,3)
    by (simp add: frame_of_def get_prop_Object_assign[OF assms(1)] has_prop_Object_assign
        env_of_val_of_env)
qed

lemma resolve_Ast: "resolve parse (Ast n) = Inr n"
  by (simp add: resolve_def)

lemma objects0_nth:
  "objects0 ! 0 = \<lparr>interceptor = Some interceptor_obs, scriptId = Some ''ctx'', onError = Some onError_obs\<rparr>"
  "objects0 ! Suc 0 = \<lparr>interceptor = None, scriptId = None, onError = None\<rparr>"
  by (simp_all add: objects0_def)

text \<open>
  Claim C9, as stated, fails, in two ways. A supplied config is not merged with the
  context's default config, it replaces it: in the context \<open>ctx0\<close>, whose default config
  has the \<open>scriptId\<close> \<open>ctx\<close> and an \<open>onError\<close> hook, a call that supplies the empty config
  evaluates under a new config object with the fresh \<open>scriptId\<close> \<open>0\<close> and no \<open>onError\<close>
  hook (the evaluator sees the \<open>scriptId\<close> \<open>0\<close>), where the shallow merge of the two has
  the \<open>scriptId\<close> \<open>ctx\<close> and the context's hook. And an environment argument with a \<open>prev\<close>
  key of its own keeps it: with \<open>{values: {a: 2}, prev: undefined}\<close> the evaluator does
  not see the root's \<open>store\<close> behind its frame.
\<close>

theorem MetaesContext_evaluate_config_not_merged:
  "MetaesContext_evaluate parse0 ev_show ctx0 (Ast (OtherNode ''Program'')) None None
      (Some [(''values'', Obj [(''a'', Num 2)])]) (Some 1) objects0 0 []
   = ((Normal (), [Called_c (Str ''0''), Called_c (Num 1)]),
      objects0 @ [\<lparr>interceptor = Some noop, scriptId = Some ''0'', onError = None\<rparr>], 1)
   \<and> scriptId (shallowMerge (objects0 ! 0) (objects0 ! 1)) = Some ''ctx''
   \<and> onError (shallowMerge (objects0 ! 0) (objects0 ! 1)) = Some onError_obs
   \<and> fst (MetaesContext_evaluate parse0 ev_show ctx0 (Ast (OtherNode ''Program'')) None None
      (Some [(''values'', Obj [(''a'', Num 2)]), (''prev'', Undefined)]) (Some 1) objects0 0 [])
   = (Normal (), [Called_c (Str ''0''), Called_c Undefined])"
  by (simp add: MetaesContext_evaluate_resolved[OF resolve_Ast] objects0_nth ctx0_def written_def
      shallowMerge_def no_scriptId_def dispatch_def frame_of_def Object_assign_def assign_prop_def
      ev_show_def host_defs obs_defs)

text \<open>
  Claim C9, amended: for a call of \<open>MetaesContext.evaluate\<close> whose source resolves to a
  node, with an environment argument (an object: its keys are distinct) that has a
  \<open>values\<close> key holding an object and no \<open>prev\<close> key of its own, \<open>evaluate\<close> is called on
  that node with a frame whose \<open>prev\<close> is the context's root environment and whose
  bindings are the argument's \<open>values\<close>,
  under a new config object that has the keys of the supplied config when one is supplied
  and of the context's default config otherwise (the two are not merged, and neither
  object is written to); in the new object a no-op interceptor is written when there is
  none and the counter is written as \<open>scriptId\<close> when there is none. The continuations
  are the supplied ones, or else the context's.
\<close>

theorem MetaesContext_evaluate_frame_and_config:
  assumes "resolve parse src = Inr n"
      and "distinct (map fst environment)"
      and "get_prop environment ''values'' = Obj vs"
      and "\<not> has_prop environment ''prev''"
      and "(case cfg of Some a \<Rightarrow> a | None \<Rightarrow> ctx_config this) < length objects"
  shows "MetaesContext_evaluate parse ev this src c cerr (Some environment) cfg objects counter s =
     (dispatch ev (Inr (n, Environment vs (Some (ctx_environment this))))
        (written (objects ! (case cfg of Some a \<Rightarrow> a | None \<Rightarrow> ctx_config this)) counter)
        (case c of Some f \<Rightarrow> Some f | None \<Rightarrow> ctx_c this)
        (case cerr of Some f \<Rightarrow> Some f | None \<Rightarrow> ctx_cerr this) s,
      objects @ [written (objects ! (case cfg of Some a \<Rightarrow> a | None \<Rightarrow> ctx_config this)) counter],
      if no_scriptId (objects ! (case cfg of Some a \<Rightarrow> a | None \<Rightarrow> ctx_config this))
      then Suc counter else counter)"
  by (simp add: MetaesContext_evaluate_resolved[OF assms(1)] frame_of_layered[OF assms(2,3,4)])

text \<open>
  The source \<open>2+2\<close> in \<open>ctx0\<close> with the environment \<open>{values: {a: 2}}\<close>: with the empty
  config supplied, the evaluator sees the \<open>scriptId\<close> \<open>0\<close> and, behind its frame, the
  context's \<open>store\<close>; with no config supplied it sees the context's \<open>scriptId\<close>. The two
  config objects that were there stay as they were.
\<close>

theorem MetaesContext_evaluate_frame_and_config_witness:
  "resolve parse0 (Text ''2+2'') = Inr (OtherNode ''Program'')
   \<and> distinct (map fst [(''values'', Obj [(''a'', Num 2)])])
   \<and> get_prop [(''values'', Obj [(''a'', Num 2)])] ''values'' = Obj [(''a'', Num 2)]
   \<and> \<not> has_prop [(''values'', Obj [(''a'', Num 2)])] ''prev''
   \<and> (case Some 1 of Some a \<Rightarrow> a | None \<Rightarrow> ctx_config ctx0) < length objects0
   \<and> MetaesContext_evaluate parse0 ev_show ctx0 (Text ''2+2'') None None
        (Some [(''values'', Obj [(''a'', Num 2)])]) (Some 1) objects0 0 []
     = ((Normal (), [Called_c (Str ''0''), Called_c (Num 1)]),
        objects0 @ [\<lparr>interceptor = Some noop, scriptId = Some ''0'', onError = None\<rparr>], 1)
   \<and> MetaesContext_evaluate parse0 ev_show ctx0 (Text ''2+2'') None None
        (Some [(''values'', Obj [(''a'', Num 2)])]) None objects0 0 []
     = ((Normal (), [Called_c (Str ''ctx''), Called_c (Num 1)]),
        objects0 @ [objects0 ! 0], 0)"
  using MetaesContext_evaluate_frame_and_config[where parse = parse0 and src = "Text ''2+2''" and n = "OtherNode ''Program''" and ev = ev_show
        and this = ctx0 and c = None and cerr = None
        and environment = "[(''values'', Obj [(''a'', Num 2)])]" and vs = "[(''a'', Num 2)]"
        and cfg = "Some 1" and objects = objects0 and counter = 0 and s = "[]"]
       MetaesContext_evaluate_frame_and_config[where parse = parse0 and src = "Text ''2+2''" and n = "OtherNode ''Program''" and ev = ev_show
        and this = ctx0 and c = None and cerr = None
        and environment = "[(''values'', Obj [(''a'', Num 2)])]" and vs = "[(''a'', Num 2)]"
        and cfg = None and objects = objects0 and counter = 0 and s = "[]"]
  by (simp add: resolve_def parse0_def written_def no_scriptId_def dispatch_def ctx0_def objects0_nth
      ev_show_def host_defs obs_defs)
     (simp add: objects0_def)

text \<open>
  Claim C10, as stated, fails: with \<open>config.scriptId\<close> absent no id is written when the
  parser throws. For a text the parser rejects, \<open>metaesEval\<close> writes the no-op interceptor
  into the config, hands what the parser threw to \<open>cerr\<close>, and leaves \<open>scriptId\<close> absent
  and the counter as it was.
\<close>

theorem metaesEval_no_scriptId_on_parse_error:
  "metaesEval parse0 (\<lambda>n env cfg. Return) (Text ''(('') None (Some cerr_obs) (Bindings [])
      \<lparr>interceptor = None, scriptId = None, onError = None\<rparr> 0 []
   = ((Normal (), [Called_cerr (Str ''SyntaxError'')]),
      \<lparr>interceptor = Some noop, scriptId = None, onError = None\<rparr>, 0)"
  by (simp add: metaesEval_def prepare_def resolve_def parse0_def dispatch_def host_defs obs_defs)

text \<open>
  Claim C10, amended: \<open>metaesEval\<close> changes the caller's config object in place. When the
  source resolves to a node, the call leaves in it a no-op interceptor where there was
  none and the counter as \<open>scriptId\<close> where there was none (the counter is then
  incremented), and calls \<open>evaluate\<close> under that config. A second call that is given the
  same config object then evaluates under the same config, so under the same \<open>scriptId\<close>,
  writes nothing to it and leaves the counter as it is.
\<close>

theorem metaesEval_shared_config:
  assumes "resolve parse src = Inr n" and "resolve parse src' = Inr n'"
  shows "metaesEval parse ev src c cerr environment cf counter s =
           (dispatch ev (Inr (n, frame_of environment)) (written cf counter) c cerr s,
            written cf counter,
            if no_scriptId cf then Suc counter else counter)
       \<and> metaesEval parse ev' src' c' cerr' environment' (written cf counter) counter' s' =
           (dispatch ev' (Inr (n', frame_of environment')) (written cf counter) c' cerr' s',
            written cf counter,
            counter')"
  by (simp add: metaesEval_def prepare_Inr[OF assms(1)] prepare_Inr[OF assms(2)]
      written_again no_scriptId_written)

text \<open>
  Two calls sharing one config object that starts empty, with the counter at \<open>5\<close>: the
  first writes the \<open>scriptId\<close> \<open>5\<close> and leaves the counter at \<open>6\<close>; the second keeps both.
\<close>

theorem metaesEval_shared_config_witness:
  "resolve parse0 (Text ''2+2'') = Inr (OtherNode ''Program'')
   \<and> resolve parse0 (Ast (OtherNode ''Program'')) = Inr (OtherNode ''Program'')
   \<and> metaesEval parse0 ev_show (Text ''2+2'') (Some c_obs) (Some cerr_obs) (Bindings [])
        \<lparr>interceptor = None, scriptId = None, onError = None\<rparr> 5 []
     = ((Normal (), [Called_c (Str ''5''), Called_c Undefined]),
        \<lparr>interceptor = Some noop, scriptId = Some ''5'', onError = None\<rparr>, 6)
   \<and> metaesEval parse0 ev_show (Ast (OtherNode ''Program'')) (Some c_obs) (Some cerr_obs) (Bindings [])
        (written \<lparr>interceptor = None, scriptId = None, onError = None\<rparr> 5) 6 []
     = ((Normal (), [Called_c (Str ''5''), Called_c Undefined]),
        \<lparr>interceptor = Some noop, scriptId = Some ''5'', onError = None\<rparr>, 6)"
  using metaesEval_shared_config[where parse = parse0 and src = "Text ''2+2''"
        and n = "OtherNode ''Program''"
        and src' = "Ast (OtherNode ''Program'')" and n' = "OtherNode ''Program''"
        and ev = ev_show and ev' = ev_show
        and c = "Some c_obs" and c' = "Some c_obs" and cerr = "Some cerr_obs" and cerr' = "Some cerr_obs"
        and environment = "Bindings []" and environment' = "Bindings []"
        and cf = "\<lparr>interceptor = None, scriptId = None, onError = None\<rparr>"
        and counter = 5 and counter' = 6 and s = "[]" and s' = "[]"]
  by (simp add: resolve_def parse0_def written_def no_scriptId_def dispatch_def frame_of_def
      ev_show_def host_defs obs_defs)

end
